(* ===== verification/Config_Prelude.thy ===== *)
theory Config_Prelude
  imports Main "HOL-Library.Word"
begin

text \<open>
  Shared vocabulary of the configuration model: the type names used for the Rust types of
  \<^verbatim>\<open>src/src/configuration/mod.rs\<close> (\<^verbatim>\<open>u64\<close>, \<^verbatim>\<open>PathBuf\<close>, the process environment), the
  collection \<open>config_simps\<close> that the component theories fill with their characteristic
  equations, and the generic lemmas on options and lists that the layering proofs share.
  The central one is \<open>first_some\<close>: the first present value of a priority-ordered list of
  optional values, which is what each nested \<^verbatim>\<open>match\<close> of the merger computes.
\<close>

named_theorems config_simps \<open>characteristic equations of the configuration model\<close>

type_synonym u64 = "64 word"
type_synonym u32 = "32 word"

text \<open>A \<^verbatim>\<open>PathBuf\<close> built with \<^verbatim>\<open>PathBuf::from(&String)\<close>: every string is a path.\<close>
type_synonym path = string

text \<open>
  The process environment as \<^verbatim>\<open>std::env::var\<close> sees it: \<open>None\<close> stands for both of its
  errors (variable not present, value not valid Unicode), which the source treats alike.
\<close>
type_synonym env_vars = "string \<Rightarrow> string option"

subsection \<open>First present value\<close>

fun first_some :: "'a option list \<Rightarrow> 'a option" where
  "first_some [] = None"
| "first_some (Some v # _) = Some v"
| "first_some (None # xs) = first_some xs"

lemma first_some_Cons [simp]:
  "first_some (x # xs) = (case x of Some v \<Rightarrow> Some v | None \<Rightarrow> first_some xs)"
  by (cases x) simp_all

declare first_some.simps(2,3) [simp del]

lemma first_some_None_iff:
  "first_some xs = None \<longleftrightarrow> (\<forall>x \<in> set xs. x = None)"
  by (induction xs) (auto split: option.splits)

text \<open>The nested \<^verbatim>\<open>match a { Some(v) => Some(v), None => match b { ... } }\<close> of two layers, used for the settings-file path.\<close>

lemma option_case2_first_some [config_simps]:
  "(case a of Some v \<Rightarrow> Some v | None \<Rightarrow> (case b of Some v \<Rightarrow> Some v | None \<Rightarrow> None))
     = first_some [a, b]"
  by (simp split: option.splits)

subsection \<open>Machine words\<close>

lemma unat_u64_bound: "unat (w :: u64) < 2 ^ 64"
  using unsigned_less [of w] by simp

subsection \<open>Sums as results\<close>

text \<open>Shape lemmas for results of type \<open>'e + 'a\<close> with \<open>Inl\<close> the error.\<close>

lemma sum_case_Inr_iff [simp]:
  "(case r of Inl e \<Rightarrow> Inl (f e) | Inr v \<Rightarrow> Inr (g v)) = Inr w \<longleftrightarrow> (\<exists>v. r = Inr v \<and> w = g v)"
  by (cases r) auto

end
