(* ===== verification/Rust_Std.thy ===== *)
theory Rust_Std
  imports Config_Prelude
begin

text \<open>
  The two pieces of the Rust standard library whose behaviour the configuration code
  depends on at the bit level: \<^verbatim>\<open>u64::from_str\<close> (called as \<^verbatim>\<open>v.parse()\<close> for
  \<^verbatim>\<open>MAELSTROM_SESSION_EXPIRATION\<close>, mod.rs line 112, and by the derived command-line parser
  for the session-expiration argument) and \<^verbatim>\<open>Duration::from_secs\<close> (mod.rs lines 254-259).
  \<open>u64_from_str\<close> follows \<^verbatim>\<open>core::num::from_str_radix\<close> for radix 10: an empty string is
  rejected, a lone sign is rejected, one leading \<^verbatim>\<open>+\<close> is skipped, a leading \<^verbatim>\<open>-\<close> is an
  invalid digit for an unsigned type, and every digit is accumulated with
  \<^verbatim>\<open>checked_mul\<close> and \<^verbatim>\<open>checked_add\<close>, so that overflow is an error and never wraps.
  The lemmas show the loop equal to a reference reading of the decimal numeral
  (\<open>u64_accumulate_eq\<close>), and the parser inverse to the decimal printer.
\<close>

subsection \<open>Checked arithmetic on \<^verbatim>\<open>u64\<close>\<close>

definition checked_mul_u64 :: "u64 \<Rightarrow> u64 \<Rightarrow> u64 option" where
  "checked_mul_u64 a b = (if unat a * unat b < 2 ^ 64 then Some (a * b) else None)"

definition checked_add_u64 :: "u64 \<Rightarrow> u64 \<Rightarrow> u64 option" where
  "checked_add_u64 a b = (if unat a + unat b < 2 ^ 64 then Some (a + b) else None)"

subsection \<open>\<^verbatim>\<open>u64::from_str\<close>\<close>

text \<open>\<^verbatim>\<open>(c as char).to_digit(10)\<close>.\<close>

definition char_to_digit :: "char \<Rightarrow> u64 option" where
  "char_to_digit c =
     (let n = (of_char c :: nat) in if 48 \<le> n \<and> n \<le> 57 then Some (word_of_nat (n - 48)) else None)"

text \<open>The digit loop: \<^verbatim>\<open>for &c in digits { x = to_digit(c)?; result = result.checked_mul(10)?; result = result.checked_add(x)? }\<close>.\<close>

fun u64_accumulate :: "u64 \<Rightarrow> char list \<Rightarrow> u64 option" where
  "u64_accumulate acc [] = Some acc"
| "u64_accumulate acc (c # cs) =
     (case char_to_digit c of
        None \<Rightarrow> None
      | Some x \<Rightarrow>
          (case checked_mul_u64 acc 10 of
             None \<Rightarrow> None
           | Some r \<Rightarrow>
               (case checked_add_u64 r x of
                  None \<Rightarrow> None
                | Some r' \<Rightarrow> u64_accumulate r' cs)))"

definition u64_from_str :: "string \<Rightarrow> u64 option" where
  "u64_from_str s =
     (case s of
        [] \<Rightarrow> None
      | c # rest \<Rightarrow>
          (if (c = CHR ''+'' \<or> c = CHR ''-'') \<and> rest = [] then None
           else if c = CHR ''+'' then u64_accumulate 0 rest
           else u64_accumulate 0 s))"

subsection \<open>\<^verbatim>\<open>std::time::Duration\<close>\<close>

record duration =
  dur_secs :: u64
  dur_nanos :: u32

definition duration_from_secs :: "u64 \<Rightarrow> duration" where
  "duration_from_secs v = \<lparr>dur_secs = v, dur_nanos = 0\<rparr>"

subsection \<open>Reference reading of decimal numerals\<close>

definition is_dec_digit :: "char \<Rightarrow> bool" where
  "is_dec_digit c \<longleftrightarrow> 48 \<le> (of_char c :: nat) \<and> (of_char c :: nat) \<le> 57"

definition digit_val :: "char \<Rightarrow> nat" where
  "digit_val c = of_char c - 48"

text \<open>The value of a digit string read after the value \<open>a\<close> (Horner's rule).\<close>

fun dec_value :: "nat \<Rightarrow> char list \<Rightarrow> nat" where
  "dec_value a [] = a"
| "dec_value a (c # cs) = dec_value (10 * a + digit_val c) cs"

text \<open>The decimal printer (\<^verbatim>\<open>u64::to_string\<close>), used to state the round trip.\<close>

definition digit_char :: "nat \<Rightarrow> char" where
  "digit_char d = ''0123456789'' ! d"

fun decimal :: "nat \<Rightarrow> string" where
  "decimal n = (if n < 10 then [digit_char n] else decimal (n div 10) @ [digit_char (n mod 10)])"

declare decimal.simps [simp del]

definition u64_to_string :: "u64 \<Rightarrow> string" where
  "u64_to_string w = decimal (unat w)"

text \<open>The reference parser: an optional \<^verbatim>\<open>+\<close>, then a non-empty run of digits whose value is below \<open>2 ^ 64\<close>.\<close>

definition u64_from_str_spec :: "string \<Rightarrow> u64 option" where
  "u64_from_str_spec s =
     (let ds = (if s \<noteq> [] \<and> hd s = CHR ''+'' then tl s else s)
      in if ds \<noteq> [] \<and> list_all is_dec_digit ds \<and> dec_value 0 ds < 2 ^ 64
         then Some (word_of_nat (dec_value 0 ds)) else None)"

subsection \<open>The digit loop against the reference\<close>

lemma char_to_digit_eq:
  "char_to_digit c = (if is_dec_digit c then Some (word_of_nat (digit_val c)) else None)"
  by (simp add: char_to_digit_def is_dec_digit_def digit_val_def Let_def)

lemma digit_val_less: "is_dec_digit c \<Longrightarrow> digit_val c < 10"
  unfolding is_dec_digit_def digit_val_def by linarith

lemma unat_digit: "is_dec_digit c \<Longrightarrow> unat (word_of_nat (digit_val c) :: u64) = digit_val c"
  using digit_val_less [of c] by (simp add: unat_of_nat)

lemma dec_value_ge: "a \<le> dec_value a cs"
  by (induction a cs rule: dec_value.induct) (auto intro: le_trans [rotated])

lemma dec_value_append: "dec_value a (xs @ ys) = dec_value (dec_value a xs) ys"
  by (induction a xs rule: dec_value.induct) simp_all

lemma u64_accumulate_eq:
  "u64_accumulate acc cs =
     (if list_all is_dec_digit cs \<and> dec_value (unat acc) cs < 2 ^ 64
      then Some (word_of_nat (dec_value (unat acc) cs)) else None)"
proof (induction cs arbitrary: acc)
  case Nil
  show ?case using unat_u64_bound [of acc] by simp
next
  case (Cons c cs)
  show ?case
  proof (cases "is_dec_digit c")
    case False
    then show ?thesis by (simp add: char_to_digit_eq)
  next
    case digit: True
    let ?d = "digit_val c"
    have lower: "10 * unat acc + ?d \<le> dec_value (unat acc) (c # cs)"
      by (simp add: dec_value_ge)
    show ?thesis
    proof (cases "unat acc * 10 < (2::nat) ^ 64")
      case False
      with lower show ?thesis
        by (simp add: char_to_digit_eq digit checked_mul_u64_def)
    next
      case mul: True
      then have r: "unat (acc * 10) = unat acc * 10"
        using unat_mult_lem [of acc 10] by simp
      show ?thesis
      proof (cases "unat acc * 10 + ?d < (2::nat) ^ 64")
        case False
        with lower r mul show ?thesis
          by (simp add: char_to_digit_eq digit checked_mul_u64_def checked_add_u64_def unat_digit)
      next
        case add: True
        then have r': "unat (acc * 10 + word_of_nat ?d) = 10 * unat acc + ?d"
          using unat_add_lem [of "acc * 10" "word_of_nat ?d"] r digit unat_digit by simp
        show ?thesis
          using add mul r r' digit Cons.IH [of "acc * 10 + word_of_nat ?d"]
          by (simp add: char_to_digit_eq checked_mul_u64_def checked_add_u64_def unat_digit
              mult.commute)
      qed
    qed
  qed
qed

subsection \<open>The parser against the reference, and the printer\<close>

lemma sign_not_digit [simp]: "\<not> is_dec_digit CHR ''+''" "\<not> is_dec_digit CHR ''-''"
  by (simp_all add: is_dec_digit_def)

lemma u64_from_str_eq_spec: "u64_from_str s = u64_from_str_spec s"
proof (cases s)
  case Nil
  then show ?thesis by (simp add: u64_from_str_def u64_from_str_spec_def)
next
  case (Cons c rest)
  then show ?thesis
    by (auto simp: u64_from_str_def u64_from_str_spec_def u64_accumulate_eq Let_def)
qed

lemma digit_char_props:
  "d < 10 \<Longrightarrow> is_dec_digit (digit_char d) \<and> digit_val (digit_char d) = d"
  by (auto simp: less_Suc_eq numeral_eq_Suc digit_char_def is_dec_digit_def digit_val_def)

lemma decimal_props:
  "decimal n \<noteq> [] \<and> list_all is_dec_digit (decimal n) \<and> dec_value 0 (decimal n) = n"
proof (induction n rule: decimal.induct)
  case (1 n)
  show ?case
  proof (cases "n < 10")
    case True
    with digit_char_props [of n] show ?thesis by (simp add: decimal.simps [of n])
  next
    case False
    with "1.IH" digit_char_props [of "n mod 10"] show ?thesis
      by (simp add: decimal.simps [of n] dec_value_append)
  qed
qed

lemma u64_from_str_decimal:
  "u64_from_str (decimal n) = (if n < 2 ^ 64 then Some (word_of_nat n) else None)"
proof -
  have "hd (decimal n) \<noteq> CHR ''+''"
    using decimal_props [of n] by (cases "decimal n") auto
  with decimal_props [of n] show ?thesis
    by (simp add: u64_from_str_eq_spec u64_from_str_spec_def)
qed

lemma u64_from_str_to_string: "u64_from_str (u64_to_string w) = Some w"
  using unat_u64_bound [of w] by (simp add: u64_to_string_def u64_from_str_decimal)
end
