(* ===== verification/Fs.thy ===== *)
theory Fs
  imports Config_Prelude
begin

text \<open>
  The part of \<^verbatim>\<open>std::fs\<close> and \<^verbatim>\<open>std::io\<close> that \<^verbatim>\<open>src/src/configuration/mod.rs\<close> uses,
  as an explicit state \<open>fs\<close> that the operations take and return.
  A file has its bytes and the permissions and failure modes the code reacts to; the
  file system maps paths to files and says where a new file may be created and whether
  writes succeed. The operations are the four calls of the source:
  \<^item> \<open>fs_open_read\<close>: \<^verbatim>\<open>File::open\<close> (lines 183 and 273), which fails with
    \<^verbatim>\<open>ErrorKind::NotFound\<close> on a missing path and with another kind on an unreadable file;
  \<^item> \<open>fs_read_to_end\<close>: \<^verbatim>\<open>read_to_end\<close> on an open file (line 279, and inside
    \<^verbatim>\<open>serde_yaml::from_reader\<close> at line 186);
  \<^item> \<open>fs_open_write_create\<close>: \<^verbatim>\<open>OpenOptions::new().write(true).create(true).open\<close>
    (line 156), which creates an empty file when the path is absent and, lacking
    \<^verbatim>\<open>truncate(true)\<close>, keeps the old contents of an existing one;
  \<^item> \<open>fs_write_all\<close>: \<^verbatim>\<open>write_all\<close> on that handle (line 158), which writes from offset 0,
    overwriting a prefix of the old contents.
  Handles are identified with their paths (nothing else touches the file between the
  calls: the resolution runs once, single-threaded, at start-up); partial writes before a
  failing \<^verbatim>\<open>write_all\<close> are not modelled.
\<close>

datatype io_error_kind = NotFound | PermissionDenied | OtherIoError

record file_node =
  fdata :: string
  freadable :: bool
  fwritable :: bool
  fread_ok :: bool
  fmeta_ok :: bool

record filesystem =
  files :: "path \<rightharpoonup> file_node"
  fcreatable :: "path \<Rightarrow> bool"
  fwrite_ok :: bool

definition fs_open_read :: "filesystem \<Rightarrow> path \<Rightarrow> io_error_kind + file_node" where
  "fs_open_read fs p =
     (case files fs p of
        None \<Rightarrow> Inl NotFound
      | Some f \<Rightarrow> if freadable f then Inr f else Inl PermissionDenied)"

definition fs_read_to_end :: "file_node \<Rightarrow> io_error_kind + string" where
  "fs_read_to_end f = (if fread_ok f then Inr (fdata f) else Inl OtherIoError)"

definition new_file :: file_node where
  "new_file = \<lparr>fdata = [], freadable = True, fwritable = True, fread_ok = True, fmeta_ok = True\<rparr>"

definition fs_open_write_create :: "filesystem \<Rightarrow> path \<Rightarrow> io_error_kind + filesystem" where
  "fs_open_write_create fs p =
     (case files fs p of
        None \<Rightarrow>
          if fcreatable fs p then Inr (fs\<lparr>files := (files fs)(p \<mapsto> new_file)\<rparr>)
          else Inl PermissionDenied
      | Some f \<Rightarrow> if fwritable f then Inr fs else Inl PermissionDenied)"

text \<open>Writing \<open>s\<close> at offset 0 of the handle: the first \<open>length s\<close> bytes are replaced.\<close>

definition fs_write_all :: "filesystem \<Rightarrow> path \<Rightarrow> string \<Rightarrow> io_error_kind + filesystem" where
  "fs_write_all fs p s =
     (case files fs p of
        None \<Rightarrow> Inl NotFound
      | Some f \<Rightarrow>
          if fwrite_ok fs
          then Inr (fs\<lparr>files := (files fs)(p \<mapsto> f\<lparr>fdata := s @ drop (length s) (fdata f)\<rparr>)\<rparr>)
          else Inl OtherIoError)"

lemma fs_open_read_NotFound_iff [simp]:
  "fs_open_read fs p = Inl NotFound \<longleftrightarrow> files fs p = None"
  by (simp add: fs_open_read_def split: option.split)

lemma fs_open_write_create_frame:
  "fs_open_write_create fs p = Inr fs' \<Longrightarrow> q \<noteq> p \<Longrightarrow> files fs' q = files fs q"
  by (auto simp: fs_open_write_create_def split: option.splits if_splits)

lemma fs_write_all_frame:
  "fs_write_all fs p s = Inr fs' \<Longrightarrow> q \<noteq> p \<Longrightarrow> files fs' q = files fs q"
  by (auto simp: fs_write_all_def split: option.splits if_splits)

text \<open>Creating a file and writing \<open>s\<close> to it leaves a readable file holding exactly \<open>s\<close>.\<close>

lemma fs_create_write_read:
  assumes "files fs p = None" and "fcreatable fs p" and "fwrite_ok fs"
  shows "\<exists>fs1 fs2. fs_open_write_create fs p = Inr fs1 \<and> fs_write_all fs1 p s = Inr fs2 \<and>
           (case fs_open_read fs2 p of Inr f \<Rightarrow> fs_read_to_end f = Inr s | Inl _ \<Rightarrow> False)"
  using assms
  by (simp add: fs_open_write_create_def fs_write_all_def fs_open_read_def fs_read_to_end_def
      new_file_def)

end
