(* ===== verification/Config_Types.thy ===== *)
theory Config_Types
  imports Rust_Std Fs
begin

text \<open>
  The data of \<^verbatim>\<open>src/src/configuration/mod.rs\<close> (lines 16-85) and the interface to the
  opaque collaborators.
  \<^item> The three all-optional layers \<^verbatim>\<open>EnvironmentConfiguration\<close>, \<^verbatim>\<open>CliConfiguration\<close> and
    \<^verbatim>\<open>YamlConfiguration\<close>, the merged \<^verbatim>\<open>LayeredServerConfiguration\<close> and the final
    \<^verbatim>\<open>ServerConfiguration\<close> are records with the source's fields, prefixed by the layer
    (\<open>env_\<close>, \<open>cli_\<close>, \<open>yaml_\<close>, \<open>lay_\<close>, \<open>srv_\<close>) because HOL record fields share
    one name space. \<^verbatim>\<open>Url\<close> is the type parameter \<open>'u\<close> and the decoded
    \<^verbatim>\<open>EncodingKey\<close> the parameter \<open>'k\<close>.
  \<^item> \<open>services\<close> collects the library functions the code calls and does not define:
    \<^verbatim>\<open>Url::parse\<close>, \<^verbatim>\<open>serde_yaml::to_string\<close>, \<^verbatim>\<open>serde_yaml::from_reader\<close> (on the
    bytes read) and \<^verbatim>\<open>EncodingKey::from_ec_pem\<close>. Every lemma of the development holds
    for every instance; where a lemma needs a property of a collaborator (the YAML codec
    reads back what it writes), the property is a hypothesis of that lemma.
  \<^item> \<open>config_error\<close> has one constructor for each place where the source calls
    \<^verbatim>\<open>exit(1)\<close> or panics, and \<open>exit_code\<close> gives the process status of each.
  \<^item> \<open>demo_services\<close> is one concrete instance of the interface, used by the examples that
    show the hypotheses of the lemmas satisfiable.
\<close>

record 'u environment_configuration =
  env_server_addr :: "'u option"
  env_database_addr :: "'u option"
  env_authkey_path :: "path option"
  env_session_expiration :: "u64 option"
  env_configuration_path :: "path option"

record 'u cli_configuration =
  cli_server_addr :: "'u option"
  cli_database_addr :: "'u option"
  cli_authkey_path :: "path option"
  cli_session_expiration :: "u64 option"
  cli_configuration_path :: "path option"

record 'u yaml_configuration =
  yaml_server_addr :: "'u option"
  yaml_database_addr :: "'u option"
  yaml_authkey_path :: "path option"
  yaml_session_expiration :: "u64 option"

record 'u layered_server_configuration =
  lay_server_addr :: 'u
  lay_database_addr :: 'u
  lay_authkey_path :: path
  lay_session_expiration :: duration

record ('u, 'k) server_configuration =
  srv_server_addr :: 'u
  srv_database_addr :: 'u
  srv_authkey :: 'k
  srv_session_expiration :: duration

record ('u, 'k) services =
  url_parse :: "string \<Rightarrow> 'u option"
  yaml_to_string :: "'u yaml_configuration \<Rightarrow> string option"
  yaml_from_str :: "string \<Rightarrow> 'u yaml_configuration option"
  ec_pem_decode :: "string \<Rightarrow> 'k option"

text \<open>The three fields without which \<^verbatim>\<open>LayeredServerConfiguration::new\<close> exits.\<close>

datatype required_option = ServerAddr | DatabaseAddr | AuthkeyPath

text \<open>
  How the argument parser derived by \<^verbatim>\<open>structopt\<close> ends the process: help and version
  requests print and exit with status 0, every other parse error exits with status 1.
\<close>

datatype cli_error = CliHelp | CliVersion | CliUsage string

text \<open>The three \<^verbatim>\<open>Err\<close> returns of \<^verbatim>\<open>YamlConfiguration::save\<close> (lines 151-165).\<close>

datatype save_error = SerializeFailed | OpenForWriteFailed io_error_kind | WriteFailed io_error_kind

datatype config_error =
    CliExit cli_error
  | NoConfigurationPath
  | YamlReadFailed
  | DefaultUrlPanic
  | YamlWriteFailed save_error
  | YamlOpenFailed io_error_kind
  | MissingOption required_option
  | AuthkeyOpenFailed io_error_kind
  | AuthkeyMetadataPanic
  | AuthkeyReadFailed io_error_kind
  | AuthkeyParseFailed

text \<open>
  The exit status: \<^verbatim>\<open>exit(1)\<close> at every reported failure, 101 for a panic
  (\<^verbatim>\<open>unwrap\<close> at lines 138-139, \<^verbatim>\<open>unimplemented!()\<close> at line 277), and clap's own status
  for the derived parser.
\<close>

fun exit_code :: "config_error \<Rightarrow> nat" where
  "exit_code (CliExit CliHelp) = 0"
| "exit_code (CliExit CliVersion) = 0"
| "exit_code (CliExit (CliUsage _)) = 1"
| "exit_code DefaultUrlPanic = 101"
| "exit_code AuthkeyMetadataPanic = 101"
| "exit_code _ = 1"

subsection \<open>An instance of the collaborators\<close>

fun has_scheme_sep :: "string \<Rightarrow> bool" where
  "has_scheme_sep (c1 # c2 # c3 # cs) =
     ((c1 = CHR '':'' \<and> c2 = CHR ''/'' \<and> c3 = CHR ''/'') \<or> has_scheme_sep (c2 # c3 # cs))"
| "has_scheme_sep _ = False"

definition demo_url_parse :: "string \<Rightarrow> string option" where
  "demo_url_parse s = (if s \<noteq> [] \<and> hd s \<noteq> CHR '':'' \<and> has_scheme_sep s then Some s else None)"

definition demo_default_yaml :: "string yaml_configuration" where
  "demo_default_yaml =
     \<lparr>yaml_server_addr = Some ''https://example.net'',
      yaml_database_addr = Some ''postgres://db.example.net'',
      yaml_authkey_path = Some ''/etc/maelstrom/authkey.pem'',
      yaml_session_expiration = Some 3000\<rparr>"

definition demo_services :: "(string, string) services" where
  "demo_services =
     \<lparr>url_parse = demo_url_parse,
      yaml_to_string = (\<lambda>y. Some (if y = demo_default_yaml then ''default'' else ''other'')),
      yaml_from_str = (\<lambda>s. if s = ''default'' then Some demo_default_yaml
                          else if s = ''db-only'' then
                            Some \<lparr>yaml_server_addr = None,
                                  yaml_database_addr = Some ''postgres://db.example.net'',
                                  yaml_authkey_path = None, yaml_session_expiration = None\<rparr>
                          else None),
      ec_pem_decode = (\<lambda>s. if s = ''PEM'' then Some ''es256-key'' else None)\<rparr>"

definition demo_file :: "string \<Rightarrow> file_node" where
  "demo_file s = \<lparr>fdata = s, freadable = True, fwritable = True, fread_ok = True, fmeta_ok = True\<rparr>"

definition demo_fs :: filesystem where
  "demo_fs = \<lparr>files = Map.empty, fcreatable = (\<lambda>_. True), fwrite_ok = True\<rparr>"

subsection \<open>Exit status\<close>

lemma exit_code_zero: "exit_code e = 0 \<longleftrightarrow> e = CliExit CliHelp \<or> e = CliExit CliVersion"
  by (cases e rule: exit_code.cases) simp_all

end
