(* ===== verification/Env_Layer.thy ===== *)
theory Env_Layer
  imports Config_Types
begin

text \<open>
  \<^verbatim>\<open>EnvironmentConfiguration::new\<close> (mod.rs lines 87-133): each of the five settings is
  read from its own variable with \<^verbatim>\<open>std::env::var\<close>; the two addresses go through
  \<^verbatim>\<open>Url::parse\<close>, the session expiration through \<^verbatim>\<open>u64::from_str\<close>, and the two paths
  are taken verbatim. A variable that is absent, or whose value does not parse, gives
  \<open>None\<close>: the layer never fails. The lemmas show that a malformed value is treated
  exactly like an absent variable, and what the session expiration read from the
  environment is, bit for bit.
\<close>

definition environment_new :: "('u, 'k) services \<Rightarrow> env_vars \<Rightarrow> 'u environment_configuration" where
  "environment_new sv env =
     (let server_addr =
        (case env ''MAELSTROM_SERVER_ADDRESS'' of
           Some v \<Rightarrow> (case url_parse sv v of Some u \<Rightarrow> Some u | None \<Rightarrow> None)
         | None \<Rightarrow> None);
      database_addr =
        (case env ''MAELSTROM_DATABASE_ADDRESS'' of
           Some v \<Rightarrow> (case url_parse sv v of Some u \<Rightarrow> Some u | None \<Rightarrow> None)
         | None \<Rightarrow> None);
      authkey_path =
        (case env ''MAELSTROM_AUTHKEY_PATH'' of Some v \<Rightarrow> Some v | None \<Rightarrow> None);
      session_expiration =
        (case env ''MAELSTROM_SESSION_EXPIRATION'' of
           Some v \<Rightarrow> (case u64_from_str v of Some n \<Rightarrow> Some n | None \<Rightarrow> None)
         | None \<Rightarrow> None);
      configuration_path =
        (case env ''MAELSTROM_CONF_PATH'' of Some v \<Rightarrow> Some v | None \<Rightarrow> None)
      in \<lparr>env_server_addr = server_addr, env_database_addr = database_addr,
          env_authkey_path = authkey_path, env_session_expiration = session_expiration,
          env_configuration_path = configuration_path\<rparr>)"

text \<open>The layer in closed form: one variable per field.\<close>

lemma environment_new_eq:
  "environment_new sv env =
     \<lparr>env_server_addr = Option.bind (env ''MAELSTROM_SERVER_ADDRESS'') (url_parse sv),
      env_database_addr = Option.bind (env ''MAELSTROM_DATABASE_ADDRESS'') (url_parse sv),
      env_authkey_path = env ''MAELSTROM_AUTHKEY_PATH'',
      env_session_expiration = Option.bind (env ''MAELSTROM_SESSION_EXPIRATION'') u64_from_str,
      env_configuration_path = env ''MAELSTROM_CONF_PATH''\<rparr>"
  unfolding environment_new_def Let_def by (simp split: option.split)

lemma environment_new_fields [config_simps]:
  "env_server_addr (environment_new sv env) = Option.bind (env ''MAELSTROM_SERVER_ADDRESS'') (url_parse sv)"
  "env_database_addr (environment_new sv env) = Option.bind (env ''MAELSTROM_DATABASE_ADDRESS'') (url_parse sv)"
  "env_authkey_path (environment_new sv env) = env ''MAELSTROM_AUTHKEY_PATH''"
  "env_session_expiration (environment_new sv env) = Option.bind (env ''MAELSTROM_SESSION_EXPIRATION'') u64_from_str"
  "env_configuration_path (environment_new sv env) = env ''MAELSTROM_CONF_PATH''"
  by (simp_all add: environment_new_eq)

text \<open>C11: a value of \<^verbatim>\<open>MAELSTROM_SERVER_ADDRESS\<close> or \<^verbatim>\<open>MAELSTROM_DATABASE_ADDRESS\<close> that \<^verbatim>\<open>Url::parse\<close> rejects, or a value of \<^verbatim>\<open>MAELSTROM_SESSION_EXPIRATION\<close> that \<^verbatim>\<open>u64::from_str\<close> rejects, gives the same environment layer as an unset variable.\<close>

theorem environment_new_malformed_absent:
  assumes "(name = ''MAELSTROM_SERVER_ADDRESS'' \<or> name = ''MAELSTROM_DATABASE_ADDRESS'') \<and> url_parse sv v = None
           \<or> name = ''MAELSTROM_SESSION_EXPIRATION'' \<and> u64_from_str v = None"
  shows "environment_new sv (env(name := Some v)) = environment_new sv (env(name := None))"
  using assms by (auto simp: environment_new_eq)

theorem environment_new_malformed_absent_witness:
  "url_parse demo_services ''example.net'' = None \<and>
   environment_new demo_services (Map.empty(''MAELSTROM_SERVER_ADDRESS'' := Some ''example.net'')) =
   environment_new demo_services (Map.empty(''MAELSTROM_SERVER_ADDRESS'' := None))"
proof -
  have h: "url_parse demo_services ''example.net'' = None"
    by (simp add: demo_services_def demo_url_parse_def)
  show ?thesis
    using h environment_new_malformed_absent
      [of "''MAELSTROM_SERVER_ADDRESS''" demo_services "''example.net''" Map.empty]
    by simp
qed

subsection \<open>The session expiration, bit for bit\<close>

text \<open>C12: the session expiration read from \<^verbatim>\<open>MAELSTROM_SESSION_EXPIRATION\<close> is the value
  of the numeral when the variable holds an optional \<^verbatim>\<open>+\<close> followed by decimal digits
  whose value is below \<open>2 ^ 64\<close>, and absent otherwise (the checked digit loop of
  \<^verbatim>\<open>u64::from_str\<close> equals the reference reading).\<close>

theorem environment_new_session_expiration:
  "env_session_expiration (environment_new sv env) =
     (case env ''MAELSTROM_SESSION_EXPIRATION'' of None \<Rightarrow> None | Some v \<Rightarrow> u64_from_str_spec v)"
  by (simp add: environment_new_fields u64_from_str_eq_spec split: option.split)

text \<open>C13: every \<^verbatim>\<open>u64\<close> written in decimal into \<^verbatim>\<open>MAELSTROM_SESSION_EXPIRATION\<close> is read
  back as that value.\<close>

theorem environment_new_session_roundtrip:
  assumes "env ''MAELSTROM_SESSION_EXPIRATION'' = Some (u64_to_string w)"
  shows "env_session_expiration (environment_new sv env) = Some w"
  using assms by (simp add: environment_new_fields u64_from_str_to_string)

theorem environment_new_session_roundtrip_witness:
  "(Map.empty(''MAELSTROM_SESSION_EXPIRATION'' := Some (u64_to_string 3600)))
     ''MAELSTROM_SESSION_EXPIRATION'' = Some (u64_to_string 3600) \<and>
   env_session_expiration (environment_new demo_services
     (Map.empty(''MAELSTROM_SESSION_EXPIRATION'' := Some (u64_to_string 3600)))) = Some 3600"
  using environment_new_session_roundtrip
    [of "Map.empty(''MAELSTROM_SESSION_EXPIRATION'' := Some (u64_to_string 3600))" 3600 demo_services]
  by simp

text \<open>C14: a decimal numeral of value \<open>2 ^ 64\<close> or more in \<^verbatim>\<open>MAELSTROM_SESSION_EXPIRATION\<close>
  is treated as absent; it never wraps around to a small lifetime.\<close>

theorem environment_new_session_overflow:
  assumes "env ''MAELSTROM_SESSION_EXPIRATION'' = Some (decimal n)" and "2 ^ 64 \<le> n"
  shows "env_session_expiration (environment_new sv env) = None"
  using assms by (simp add: environment_new_fields u64_from_str_decimal)

theorem environment_new_session_overflow_witness:
  "(2::nat) ^ 64 \<le> 2 ^ 64 \<and>
   env_session_expiration (environment_new demo_services
     (Map.empty(''MAELSTROM_SESSION_EXPIRATION'' := Some (decimal (2 ^ 64))))) = None"
  using environment_new_session_overflow
    [of "Map.empty(''MAELSTROM_SESSION_EXPIRATION'' := Some (decimal (2 ^ 64)))" "2 ^ 64" demo_services]
  by simp

end
