(* ===== verification/Cli_Layer.thy ===== *)
theory Cli_Layer
  imports Config_Types
begin

text \<open>
  \<^verbatim>\<open>CliConfiguration::from_args\<close>, the parser that \<^verbatim>\<open>#[derive(StructOpt)]\<close> generates
  for the struct at mod.rs lines 30-42. No field carries a \<^verbatim>\<open>#[structopt(long)]\<close> or
  \<^verbatim>\<open>short\<close> attribute, so the five \<^verbatim>\<open>Option\<close> fields are optional positional arguments,
  taken in declaration order, each checked by its type's \<^verbatim>\<open>FromStr\<close>; clap adds the
  \<^verbatim>\<open>-h\<close>/\<^verbatim>\<open>--help\<close> and \<^verbatim>\<open>-V\<close>/\<^verbatim>\<open>--version\<close> flags. The scan (\<open>cli_collect\<close>) handles
  the arguments left to right: \<^verbatim>\<open>--\<close> ends the flags, a help or version flag stops the
  parse at once, any other argument that starts with \<^verbatim>\<open>-\<close> and has more characters is an
  unknown flag (clap does not accept negative numbers as values by default), and a sixth
  positional value is unexpected. The collected values are then validated; a value its
  type does not accept is a usage error. Every error of this layer ends the process
  (\<^verbatim>\<open>clap::Error::exit\<close>), unlike the environment layer, which drops malformed values.
  The program name (\<^verbatim>\<open>argv[0]\<close>) is not part of the argument list here.
\<close>

definition is_flag :: "string \<Rightarrow> bool" where
  "is_flag a \<longleftrightarrow> 2 \<le> length a \<and> hd a = CHR ''-''"

text \<open>The outcome of a flag argument: the first letter of a short cluster decides.\<close>

definition cli_flag :: "string \<Rightarrow> cli_error" where
  "cli_flag a =
     (if a = ''--help'' then CliHelp
      else if a = ''--version'' then CliVersion
      else if a ! 1 = CHR ''h'' then CliHelp
      else if a ! 1 = CHR ''V'' then CliVersion
      else CliUsage a)"

fun cli_collect :: "bool \<Rightarrow> string list \<Rightarrow> string list \<Rightarrow> cli_error + string list" where
  "cli_collect only_pos acc [] = Inr acc"
| "cli_collect only_pos acc (a # as) =
     (if \<not> only_pos \<and> a = ''--'' then cli_collect True acc as
      else if \<not> only_pos \<and> is_flag a then Inl (cli_flag a)
      else if length acc = 5 then Inl (CliUsage a)
      else cli_collect only_pos (acc @ [a]) as)"

text \<open>Validation of one optional value with its type's \<^verbatim>\<open>FromStr\<close>.\<close>

definition cli_value :: "(string \<Rightarrow> 'a option) \<Rightarrow> string option \<Rightarrow> cli_error + 'a option" where
  "cli_value parse arg =
     (case arg of
        None \<Rightarrow> Inr None
      | Some v \<Rightarrow> (case parse v of None \<Rightarrow> Inl (CliUsage v) | Some x \<Rightarrow> Inr (Some x)))"

definition nth_opt :: "'a list \<Rightarrow> nat \<Rightarrow> 'a option" where
  "nth_opt xs i = (if i < length xs then Some (xs ! i) else None)"

definition cli_from_args :: "('u, 'k) services \<Rightarrow> string list \<Rightarrow> cli_error + 'u cli_configuration" where
  "cli_from_args sv args =
     (case cli_collect False [] args of
        Inl e \<Rightarrow> Inl e
      | Inr vals \<Rightarrow>
          (case cli_value (url_parse sv) (nth_opt vals 0) of Inl e \<Rightarrow> Inl e | Inr server_addr \<Rightarrow>
           case cli_value (url_parse sv) (nth_opt vals 1) of Inl e \<Rightarrow> Inl e | Inr database_addr \<Rightarrow>
           case cli_value Some (nth_opt vals 2) of Inl e \<Rightarrow> Inl e | Inr authkey_path \<Rightarrow>
           case cli_value u64_from_str (nth_opt vals 3) of Inl e \<Rightarrow> Inl e | Inr session_expiration \<Rightarrow>
           case cli_value Some (nth_opt vals 4) of Inl e \<Rightarrow> Inl e | Inr configuration_path \<Rightarrow>
             Inr \<lparr>cli_server_addr = server_addr, cli_database_addr = database_addr,
                  cli_authkey_path = authkey_path, cli_session_expiration = session_expiration,
                  cli_configuration_path = configuration_path\<rparr>))"

subsection \<open>The scan\<close>

text \<open>Without flags, the scan keeps the arguments in order, at most five of them.\<close>

lemma cli_collect_plain:
  "\<forall>a \<in> set as. \<not> is_flag a \<and> a \<noteq> ''--'' \<Longrightarrow> length acc + length as \<le> 5 \<Longrightarrow>
     cli_collect False acc as = Inr (acc @ as)"
  by (induction as arbitrary: acc) auto

subsection \<open>Positional values\<close>

text \<open>C16: with plain arguments (no flag, no \<^verbatim>\<open>--\<close>), at most five of them, a successful parse
  assigns the i-th argument to the i-th field of \<^verbatim>\<open>CliConfiguration\<close>, read with that
  field's parser; missing trailing arguments leave their fields unset.\<close>

theorem cli_from_args_positional:
  assumes "\<forall>a \<in> set args. \<not> is_flag a \<and> a \<noteq> ''--''" and "length args \<le> 5"
    and "cli_from_args sv args = Inr c"
  shows "cli_server_addr c = Option.bind (nth_opt args 0) (url_parse sv) \<and>
         cli_database_addr c = Option.bind (nth_opt args 1) (url_parse sv) \<and>
         cli_authkey_path c = nth_opt args 2 \<and>
         cli_session_expiration c = Option.bind (nth_opt args 3) u64_from_str \<and>
         cli_configuration_path c = nth_opt args 4"
proof -
  have "cli_collect False [] args = Inr args"
    using cli_collect_plain [of args "[]"] assms(1,2) by simp
  with assms(3) show ?thesis
    by (auto simp: cli_from_args_def cli_value_def split: sum.splits option.splits)
qed

theorem cli_from_args_positional_witness:
  "cli_from_args demo_services [''https://a.example'', ''postgres://db.example'', ''/k.pem'', ''+90''] =
     Inr \<lparr>cli_server_addr = Some ''https://a.example'', cli_database_addr = Some ''postgres://db.example'',
          cli_authkey_path = Some ''/k.pem'', cli_session_expiration = Some 90, cli_configuration_path = None\<rparr> \<and>
   cli_session_expiration
     \<lparr>cli_server_addr = Some ''https://a.example'', cli_database_addr = Some ''postgres://db.example'',
      cli_authkey_path = Some ''/k.pem'', cli_session_expiration = Some 90, cli_configuration_path = None\<rparr>
   = Option.bind (nth_opt [''https://a.example'', ''postgres://db.example'', ''/k.pem'', ''+90''] 3) u64_from_str"
proof -
  have u: "u64_from_str ''+90'' = Some 90"
    by (simp add: u64_from_str_def char_to_digit_def checked_mul_u64_def checked_add_u64_def)
  have run: "cli_from_args demo_services [''https://a.example'', ''postgres://db.example'', ''/k.pem'', ''+90''] =
     Inr \<lparr>cli_server_addr = Some ''https://a.example'', cli_database_addr = Some ''postgres://db.example'',
          cli_authkey_path = Some ''/k.pem'', cli_session_expiration = Some 90, cli_configuration_path = None\<rparr>"
    using u by (simp add: cli_from_args_def is_flag_def cli_value_def nth_opt_def demo_services_def
        demo_url_parse_def)
  show ?thesis
    using run cli_from_args_positional [OF _ _ run] by (simp add: is_flag_def)
qed

subsection \<open>Malformed values end the process\<close>

text \<open>C15: a positional address that \<^verbatim>\<open>Url::parse\<close> rejects, or a session expiration that
  \<^verbatim>\<open>u64::from_str\<close> rejects, makes the parse fail with a usage error (status 1): on the
  command line a malformed value is fatal, not treated as absent.\<close>

theorem cli_from_args_malformed_fatal:
  assumes "\<forall>a \<in> set args. \<not> is_flag a \<and> a \<noteq> ''--''" and "length args \<le> 5" and "i < length args"
    and "(i = 0 \<or> i = 1) \<and> url_parse sv (args ! i) = None \<or> i = 3 \<and> u64_from_str (args ! i) = None"
  shows "\<exists>v. cli_from_args sv args = Inl (CliUsage v)"
proof -
  have "cli_collect False [] args = Inr args"
    using cli_collect_plain [of args "[]"] assms(1,2) by simp
  with assms(3,4) show ?thesis
    by (auto simp: cli_from_args_def cli_value_def nth_opt_def split: sum.splits option.splits)
qed

theorem cli_from_args_malformed_fatal_witness:
  "u64_from_str ''-5'' = None \<and>
   (\<exists>v. cli_from_args demo_services [''https://a.example'', ''postgres://db.example'', ''/k.pem'', ''-5''] = Inl (CliUsage v)) \<and>
   Option.bind (nth_opt [''https://a.example'', ''postgres://db.example'', ''/k.pem'', ''5x''] 3) u64_from_str = None \<and>
   (\<exists>v. cli_from_args demo_services [''https://a.example'', ''postgres://db.example'', ''/k.pem'', ''5x''] = Inl (CliUsage v))"
proof -
  have u: "u64_from_str ''5x'' = None" "u64_from_str ''-5'' = None"
    by (simp_all add: u64_from_str_def char_to_digit_def checked_mul_u64_def checked_add_u64_def)
  have fatal: "\<exists>v. cli_from_args demo_services [''https://a.example'', ''postgres://db.example'', ''/k.pem'', ''5x''] = Inl (CliUsage v)"
    using cli_from_args_malformed_fatal [of "[''https://a.example'', ''postgres://db.example'', ''/k.pem'', ''5x'']" 3]
      u by (simp add: is_flag_def)
  have flag: "cli_from_args demo_services [''https://a.example'', ''postgres://db.example'', ''/k.pem'', ''-5''] = Inl (CliUsage ''-5'')"
    by (simp add: cli_from_args_def is_flag_def cli_flag_def)
  show ?thesis
    using u fatal flag by (auto simp: nth_opt_def)
qed

end
