(* ===== verification/Yaml_Layer.thy ===== *)
theory Yaml_Layer
  imports Config_Types
begin

text \<open>
  The settings-file layer: \<^verbatim>\<open>YamlConfiguration::default\<close> (lines 136-144),
  \<^verbatim>\<open>YamlConfiguration::save\<close> (lines 150-166) and the load-or-create step of
  \<^verbatim>\<open>LayeredServerConfiguration::new\<close> (lines 183-212), which opens the file, parses it,
  and on \<^verbatim>\<open>NotFound\<close> writes the default file and continues with the default values.
  Each operation takes and returns the file system. The lemmas show the round trip of
  the first run (the file written is the file read at the next start), that a corrupt or
  unreadable file is fatal and leaves the disk alone, that saving over an existing file
  keeps its old tail (the file is opened without truncation), and that the step writes
  nothing but the one missing file.
\<close>

definition yaml_default :: "('u, 'k) services \<Rightarrow> config_error + 'u yaml_configuration" where
  "yaml_default sv =
     (case url_parse sv ''https://example.net'' of
        None \<Rightarrow> Inl DefaultUrlPanic
      | Some server_addr \<Rightarrow>
          (case url_parse sv ''postgres://db.example.net'' of
             None \<Rightarrow> Inl DefaultUrlPanic
           | Some database_addr \<Rightarrow>
               Inr \<lparr>yaml_server_addr = Some server_addr,
                    yaml_database_addr = Some database_addr,
                    yaml_authkey_path = Some ''/etc/maelstrom/authkey.pem'',
                    yaml_session_expiration = Some 3000\<rparr>))"

definition yaml_save ::
  "('u, 'k) services \<Rightarrow> 'u yaml_configuration \<Rightarrow> path \<Rightarrow> filesystem \<Rightarrow> (save_error + unit) \<times> filesystem" where
  "yaml_save sv y p fs =
     (case yaml_to_string sv y of
        None \<Rightarrow> (Inl SerializeFailed, fs)
      | Some s \<Rightarrow>
          (case fs_open_write_create fs p of
             Inl e \<Rightarrow> (Inl (OpenForWriteFailed e), fs)
           | Inr fs1 \<Rightarrow>
               (case fs_write_all fs1 p s of
                  Inl e \<Rightarrow> (Inl (WriteFailed e), fs1)
                | Inr fs2 \<Rightarrow> (Inr (), fs2))))"

text \<open>\<^verbatim>\<open>serde_yaml::from_reader(BufReader::new(file))\<close>: a read error is a parse error.\<close>

definition yaml_read :: "('u, 'k) services \<Rightarrow> file_node \<Rightarrow> 'u yaml_configuration option" where
  "yaml_read sv f = (case fs_read_to_end f of Inl _ \<Rightarrow> None | Inr s \<Rightarrow> yaml_from_str sv s)"

definition yaml_layer_load ::
  "('u, 'k) services \<Rightarrow> path \<Rightarrow> filesystem \<Rightarrow> (config_error + 'u yaml_configuration) \<times> filesystem" where
  "yaml_layer_load sv yaml_path fs =
     (case fs_open_read fs yaml_path of
        Inr f \<Rightarrow>
          (case yaml_read sv f of
             Some y \<Rightarrow> (Inr y, fs)
           | None \<Rightarrow> (Inl YamlReadFailed, fs))
      | Inl NotFound \<Rightarrow>
          (case yaml_default sv of
             Inl e \<Rightarrow> (Inl e, fs)
           | Inr y \<Rightarrow>
               (case yaml_save sv y yaml_path fs of
                  (Inr _, fs') \<Rightarrow> (Inr y, fs')
                | (Inl e, fs') \<Rightarrow> (Inl (YamlWriteFailed e), fs')))
      | Inl e \<Rightarrow> (Inl (YamlOpenFailed e), fs))"

subsection \<open>Shared lemmas\<close>

lemma yaml_save_frame:
  "yaml_save sv y p fs = (r, fs') \<Longrightarrow> q \<noteq> p \<Longrightarrow> files fs' q = files fs q"
  by (auto simp: yaml_save_def fs_open_write_create_frame fs_write_all_frame
      split: option.splits sum.splits)

lemma yaml_save_unchanged_fields:
  "yaml_save sv y p fs = (r, fs') \<Longrightarrow> fcreatable fs' = fcreatable fs \<and> fwrite_ok fs' = fwrite_ok fs"
  by (auto simp: yaml_save_def fs_open_write_create_def fs_write_all_def
      split: option.splits sum.splits if_splits)

text \<open>The load step either leaves the disk as it was, or the file was missing and only it changed.\<close>

lemma yaml_layer_load_frame:
  assumes "yaml_layer_load sv p fs = (r, fs')"
  shows "fs' = fs \<or> (files fs p = None \<and> (\<forall>q. q \<noteq> p \<longrightarrow> files fs' q = files fs q)
                        \<and> fcreatable fs' = fcreatable fs \<and> fwrite_ok fs' = fwrite_ok fs)"
proof (cases "fs_open_read fs p")
  case (Inl e)
  show ?thesis
  proof (cases "e = NotFound")
    case True
    with Inl have absent: "files fs p = None" by simp
    obtain r' fs'' where save: "yaml_save sv (projr (yaml_default sv)) p fs = (r', fs'')"
      by (cases "yaml_save sv (projr (yaml_default sv)) p fs")
    from assms Inl True save absent show ?thesis
      using yaml_save_frame [OF save] yaml_save_unchanged_fields [OF save]
      by (auto simp: yaml_layer_load_def split: sum.splits prod.splits)
  next
    case False
    with assms Inl show ?thesis
      by (cases e) (auto simp: yaml_layer_load_def)
  qed
next
  case (Inr f)
  with assms show ?thesis
    by (auto simp: yaml_layer_load_def split: option.splits)
qed

lemma yaml_layer_load_Inl_not_missing:
  "yaml_layer_load sv p fs = (Inl e, fs') \<Longrightarrow> e \<noteq> MissingOption f"
  by (auto simp: yaml_layer_load_def yaml_default_def split: sum.splits option.splits prod.splits io_error_kind.splits)

lemma yaml_layer_load_absent:
  assumes "files fs p = None" and "yaml_layer_load sv p fs = (Inr y, fs')"
  shows "yaml_default sv = Inr y"
proof -
  have nf: "fs_open_read fs p = Inl NotFound"
    using assms(1) by simp
  from assms(2) show ?thesis
    unfolding yaml_layer_load_def nf by (auto split: sum.splits prod.splits)
qed

lemma yaml_default_complete:
  "yaml_default sv = Inr y \<Longrightarrow>
     yaml_server_addr y \<noteq> None \<and> yaml_database_addr y \<noteq> None \<and> yaml_authkey_path y \<noteq> None"
  by (auto simp: yaml_default_def split: option.splits)

lemma yaml_default_session:
  "yaml_default sv = Inr y \<Longrightarrow> yaml_session_expiration y = Some 3000"
  by (auto simp: yaml_default_def split: option.splits)

lemma yaml_layer_load_Inl_cases:
  "yaml_layer_load sv p fs = (Inl e, fs') \<Longrightarrow>
     e = YamlReadFailed \<or> e = DefaultUrlPanic \<or> (\<exists>s. e = YamlWriteFailed s) \<or> (\<exists>k. e = YamlOpenFailed k)"
  by (auto simp: yaml_layer_load_def yaml_default_def split: sum.splits option.splits prod.splits io_error_kind.splits)

lemma demo_default: "yaml_default demo_services = Inr demo_default_yaml"
  by (simp add: yaml_default_def demo_services_def demo_url_parse_def demo_default_yaml_def)

subsection \<open>The first run writes the file the next run reads\<close>

text \<open>C8: when the settings file is missing and can be created, the load step writes the
  default settings and continues with them; at the next start the same step reads that
  file back and yields the same settings, without touching the disk (given that the YAML
  codec reads back what it writes).\<close>

theorem yaml_layer_load_first_run_roundtrip:
  assumes absent: "files fs p = None" and "fcreatable fs p" and "fwrite_ok fs"
    and dflt: "yaml_default sv = Inr y"
    and enc: "yaml_to_string sv y = Some s" and dec: "yaml_from_str sv s = Some y"
  shows "\<exists>fs'. yaml_layer_load sv p fs = (Inr y, fs') \<and> yaml_layer_load sv p fs' = (Inr y, fs')"
proof -
  obtain fs1 fs2 where o: "fs_open_write_create fs p = Inr fs1" and w: "fs_write_all fs1 p s = Inr fs2"
    and r: "case fs_open_read fs2 p of Inr f \<Rightarrow> fs_read_to_end f = Inr s | Inl _ \<Rightarrow> False"
    using fs_create_write_read [OF assms(1-3), of s] by blast
  have nf: "fs_open_read fs p = Inl NotFound"
    using absent by simp
  have first: "yaml_layer_load sv p fs = (Inr y, fs2)"
    unfolding yaml_layer_load_def nf using dflt enc o w by (simp add: yaml_save_def)
  have second: "yaml_layer_load sv p fs2 = (Inr y, fs2)"
    using r dec by (auto simp: yaml_layer_load_def yaml_read_def split: sum.splits)
  from first second show ?thesis by blast
qed

theorem yaml_layer_load_first_run_roundtrip_witness:
  "\<exists>fs'. yaml_layer_load demo_services ''/etc/maelstrom.yaml'' demo_fs = (Inr demo_default_yaml, fs') \<and>
         yaml_layer_load demo_services ''/etc/maelstrom.yaml'' fs' = (Inr demo_default_yaml, fs')"
proof -
  have e: "yaml_to_string demo_services demo_default_yaml = Some ''default''"
    by (simp add: demo_services_def)
  have d: "yaml_from_str demo_services ''default'' = Some demo_default_yaml"
    by (simp add: demo_services_def)
  show ?thesis
    by (rule yaml_layer_load_first_run_roundtrip [OF _ _ _ demo_default e d])
       (simp_all add: demo_fs_def)
qed

subsection \<open>Fatal file errors\<close>

text \<open>C9: a settings file that exists but cannot be read or parsed is fatal, and no default
  file is written.\<close>

theorem yaml_layer_load_corrupt:
  assumes "files fs p = Some f" and "freadable f" and "yaml_read sv f = None"
  shows "yaml_layer_load sv p fs = (Inl YamlReadFailed, fs)"
  using assms by (simp add: yaml_layer_load_def fs_open_read_def)

theorem yaml_layer_load_corrupt_witness:
  "files (demo_fs\<lparr>files := [''/etc/m.yaml'' \<mapsto> demo_file ''not yaml {'']\<rparr>) ''/etc/m.yaml''
     = Some (demo_file ''not yaml {'') \<and>
   freadable (demo_file ''not yaml {'') \<and>
   yaml_read demo_services (demo_file ''not yaml {'') = None \<and>
   yaml_layer_load demo_services ''/etc/m.yaml'' (demo_fs\<lparr>files := [''/etc/m.yaml'' \<mapsto> demo_file ''not yaml {'']\<rparr>)
     = (Inl YamlReadFailed, demo_fs\<lparr>files := [''/etc/m.yaml'' \<mapsto> demo_file ''not yaml {'']\<rparr>)"
proof -
  have r: "yaml_read demo_services (demo_file ''not yaml {'') = None"
    by (simp add: yaml_read_def fs_read_to_end_def demo_file_def demo_services_def)
  have f: "freadable (demo_file ''not yaml {'')"
    by (simp add: demo_file_def)
  show ?thesis
    using yaml_layer_load_corrupt [of "demo_fs\<lparr>files := [''/etc/m.yaml'' \<mapsto> demo_file ''not yaml {'']\<rparr>"
        "''/etc/m.yaml''" "demo_file ''not yaml {''" demo_services] r f
    by simp
qed

text \<open>C22: a settings file that exists but is not readable (\<^verbatim>\<open>File::open\<close> fails with an
  error other than \<^verbatim>\<open>NotFound\<close>) is fatal, and the disk is left alone.\<close>

theorem yaml_layer_load_unreadable:
  assumes "files fs p = Some f" and "\<not> freadable f"
  shows "yaml_layer_load sv p fs = (Inl (YamlOpenFailed PermissionDenied), fs)"
  using assms by (simp add: yaml_layer_load_def fs_open_read_def)

theorem yaml_layer_load_unreadable_witness:
  "files (demo_fs\<lparr>files := [''/etc/m.yaml'' \<mapsto> (demo_file ''x'')\<lparr>freadable := False\<rparr>]\<rparr>) ''/etc/m.yaml''
     = Some ((demo_file ''x'')\<lparr>freadable := False\<rparr>) \<and>
   \<not> freadable ((demo_file ''x'')\<lparr>freadable := False\<rparr>) \<and>
   yaml_layer_load demo_services ''/etc/m.yaml''
       (demo_fs\<lparr>files := [''/etc/m.yaml'' \<mapsto> (demo_file ''x'')\<lparr>freadable := False\<rparr>]\<rparr>)
     = (Inl (YamlOpenFailed PermissionDenied),
        demo_fs\<lparr>files := [''/etc/m.yaml'' \<mapsto> (demo_file ''x'')\<lparr>freadable := False\<rparr>]\<rparr>)"
  using yaml_layer_load_unreadable
      [of "demo_fs\<lparr>files := [''/etc/m.yaml'' \<mapsto> (demo_file ''x'')\<lparr>freadable := False\<rparr>]\<rparr>"
        "''/etc/m.yaml''" "(demo_file ''x'')\<lparr>freadable := False\<rparr>" demo_services]
  by simp

subsection \<open>Saving over an existing file\<close>

text \<open>C10: \<^verbatim>\<open>YamlConfiguration::save\<close> opens the file with \<^verbatim>\<open>write(true).create(true)\<close> and no
  \<^verbatim>\<open>truncate(true)\<close>: on an existing file the serialized text replaces only a prefix, and
  the bytes of the old contents beyond its length stay in the file.\<close>

theorem yaml_save_keeps_stale_tail:
  assumes "files fs p = Some f" and "fwritable f" and "fwrite_ok fs"
    and "yaml_to_string sv y = Some s"
  shows "\<exists>fs'. yaml_save sv y p fs = (Inr (), fs') \<and>
           files fs' p = Some (f\<lparr>fdata := s @ drop (length s) (fdata f)\<rparr>)"
  using assms by (simp add: yaml_save_def fs_open_write_create_def fs_write_all_def)

theorem yaml_save_keeps_stale_tail_witness:
  "files (demo_fs\<lparr>files := [''/etc/m.yaml'' \<mapsto> demo_file ''stale-settings-text'']\<rparr>) ''/etc/m.yaml''
     = Some (demo_file ''stale-settings-text'') \<and>
   fwritable (demo_file ''stale-settings-text'') \<and>
   fwrite_ok (demo_fs\<lparr>files := [''/etc/m.yaml'' \<mapsto> demo_file ''stale-settings-text'']\<rparr>) \<and>
   yaml_to_string demo_services demo_default_yaml = Some ''default'' \<and>
   (\<exists>fs'. yaml_save demo_services demo_default_yaml ''/etc/m.yaml''
             (demo_fs\<lparr>files := [''/etc/m.yaml'' \<mapsto> demo_file ''stale-settings-text'']\<rparr>) = (Inr (), fs') \<and>
           files fs' ''/etc/m.yaml'' = Some (demo_file ''defaultettings-text'')) \<and>
   yaml_from_str demo_services ''defaultettings-text'' = None"
proof -
  have w: "fwritable (demo_file ''stale-settings-text'')"
    by (simp add: demo_file_def)
  have e: "yaml_to_string demo_services demo_default_yaml = Some ''default''"
    by (simp add: demo_services_def)
  have upd: "(demo_file ''stale-settings-text'')\<lparr>fdata := ''default'' @ drop (length ''default'') (fdata (demo_file ''stale-settings-text''))\<rparr>
      = demo_file ''defaultettings-text''"
    by (simp add: demo_file_def)
  have d: "yaml_from_str demo_services ''defaultettings-text'' = None"
    by (simp add: demo_services_def)
  show ?thesis
    using yaml_save_keeps_stale_tail
      [of "demo_fs\<lparr>files := [''/etc/m.yaml'' \<mapsto> demo_file ''stale-settings-text'']\<rparr>"
        "''/etc/m.yaml''" "demo_file ''stale-settings-text''" demo_services demo_default_yaml "''default''"]
      w e upd d
    by (simp add: demo_fs_def)
qed

end
