(* ===== verification/Layered.thy ===== *)
theory Layered
  imports Env_Layer Cli_Layer Yaml_Layer
begin

text \<open>
  \<^verbatim>\<open>LayeredServerConfiguration::new\<close> (mod.rs lines 169-265), in two parts.
  \<open>layered_merge\<close> is the struct literal of lines 213-263: for each field, in declaration
  order, the first present value of environment, command line and file; a missing
  required field exits, a missing session expiration becomes 60 seconds.
  \<open>layered_new\<close> is the whole constructor: read the environment, parse the command line,
  take the settings-file path from the environment or else the command line (lines
  173-182), load or create the file (\<open>yaml_layer_load\<close>), merge.

  The abstract specification \<open>spec_resolve\<close> is the contract of the merger stated once
  for any number of layers in priority order, over the common shape of the layers
  (\<open>yaml_configuration\<close>, which the environment and command-line layers project onto by
  forgetting the settings-file path). The refinement lemma says that the code's three
  hand-written nested matches compute exactly this specification for the list
  [environment, command line, file].
\<close>

definition layered_merge ::
  "'u environment_configuration \<Rightarrow> 'u cli_configuration \<Rightarrow> 'u yaml_configuration
     \<Rightarrow> config_error + 'u layered_server_configuration" where
  "layered_merge env cli yaml =
     (case (case env_server_addr env of
              Some v \<Rightarrow> Inr v
            | None \<Rightarrow> (case cli_server_addr cli of
                         Some v \<Rightarrow> Inr v
                       | None \<Rightarrow> (case yaml_server_addr yaml of
                                    Some v \<Rightarrow> Inr v
                                  | None \<Rightarrow> Inl (MissingOption ServerAddr)))) of
        Inl e \<Rightarrow> Inl e
      | Inr server_addr \<Rightarrow>
     (case (case env_database_addr env of
              Some v \<Rightarrow> Inr v
            | None \<Rightarrow> (case cli_database_addr cli of
                         Some v \<Rightarrow> Inr v
                       | None \<Rightarrow> (case yaml_database_addr yaml of
                                    Some v \<Rightarrow> Inr v
                                  | None \<Rightarrow> Inl (MissingOption DatabaseAddr)))) of
        Inl e \<Rightarrow> Inl e
      | Inr database_addr \<Rightarrow>
     (case (case env_authkey_path env of
              Some v \<Rightarrow> Inr v
            | None \<Rightarrow> (case cli_authkey_path cli of
                         Some v \<Rightarrow> Inr v
                       | None \<Rightarrow> (case yaml_authkey_path yaml of
                                    Some v \<Rightarrow> Inr v
                                  | None \<Rightarrow> Inl (MissingOption AuthkeyPath)))) of
        Inl e \<Rightarrow> Inl e
      | Inr authkey_path \<Rightarrow>
        Inr \<lparr>lay_server_addr = server_addr,
             lay_database_addr = database_addr,
             lay_authkey_path = authkey_path,
             lay_session_expiration =
               (case env_session_expiration env of
                  Some v \<Rightarrow> duration_from_secs v
                | None \<Rightarrow> (case cli_session_expiration cli of
                             Some v \<Rightarrow> duration_from_secs v
                           | None \<Rightarrow> (case yaml_session_expiration yaml of
                                        Some v \<Rightarrow> duration_from_secs v
                                      | None \<Rightarrow> duration_from_secs 60)))\<rparr>)))"

definition layered_new ::
  "('u, 'k) services \<Rightarrow> env_vars \<Rightarrow> string list \<Rightarrow> filesystem
     \<Rightarrow> (config_error + 'u layered_server_configuration) \<times> filesystem" where
  "layered_new sv vars args fs =
     (let env = environment_new sv vars in
      case cli_from_args sv args of
        Inl e \<Rightarrow> (Inl (CliExit e), fs)
      | Inr cli \<Rightarrow>
          (case (case env_configuration_path env of
                   Some v \<Rightarrow> Some v
                 | None \<Rightarrow> (case cli_configuration_path cli of Some v \<Rightarrow> Some v | None \<Rightarrow> None)) of
             None \<Rightarrow> (Inl NoConfigurationPath, fs)
           | Some yaml_path \<Rightarrow>
               (case yaml_layer_load sv yaml_path fs of
                  (Inl e, fs') \<Rightarrow> (Inl e, fs')
                | (Inr yaml, fs') \<Rightarrow> (layered_merge env cli yaml, fs'))))"

subsection \<open>The abstract specification\<close>

definition env_layer :: "'u environment_configuration \<Rightarrow> 'u yaml_configuration" where
  "env_layer env =
     \<lparr>yaml_server_addr = env_server_addr env, yaml_database_addr = env_database_addr env,
      yaml_authkey_path = env_authkey_path env, yaml_session_expiration = env_session_expiration env\<rparr>"

definition cli_layer :: "'u cli_configuration \<Rightarrow> 'u yaml_configuration" where
  "cli_layer cli =
     \<lparr>yaml_server_addr = cli_server_addr cli, yaml_database_addr = cli_database_addr cli,
      yaml_authkey_path = cli_authkey_path cli, yaml_session_expiration = cli_session_expiration cli\<rparr>"

definition require :: "required_option \<Rightarrow> 'a option list \<Rightarrow> config_error + 'a" where
  "require f xs = (case first_some xs of Some v \<Rightarrow> Inr v | None \<Rightarrow> Inl (MissingOption f))"

text \<open>Resolution over layers listed from highest to lowest priority.\<close>

definition spec_resolve :: "'u yaml_configuration list \<Rightarrow> config_error + 'u layered_server_configuration" where
  "spec_resolve ls =
     (case require ServerAddr (map yaml_server_addr ls) of Inl e \<Rightarrow> Inl e | Inr s \<Rightarrow>
      case require DatabaseAddr (map yaml_database_addr ls) of Inl e \<Rightarrow> Inl e | Inr d \<Rightarrow>
      case require AuthkeyPath (map yaml_authkey_path ls) of Inl e \<Rightarrow> Inl e | Inr k \<Rightarrow>
        Inr \<lparr>lay_server_addr = s, lay_database_addr = d, lay_authkey_path = k,
             lay_session_expiration =
               duration_from_secs (case first_some (map yaml_session_expiration ls) of
                                     Some v \<Rightarrow> v | None \<Rightarrow> 60)\<rparr>)"

text \<open>Whether a required field is present in some layer.\<close>

fun present :: "'u yaml_configuration list \<Rightarrow> required_option \<Rightarrow> bool" where
  "present ls ServerAddr = (first_some (map yaml_server_addr ls) \<noteq> None)"
| "present ls DatabaseAddr = (first_some (map yaml_database_addr ls) \<noteq> None)"
| "present ls AuthkeyPath = (first_some (map yaml_authkey_path ls) \<noteq> None)"

subsection \<open>Example layers\<close>

text \<open>The layers of the spec's scenario: the environment gives only the database address,
  the command line the server address and the key path.\<close>

definition demo_env :: "string environment_configuration" where
  "demo_env = \<lparr>env_server_addr = None, env_database_addr = Some ''postgres://env.example'',
     env_authkey_path = None, env_session_expiration = None, env_configuration_path = None\<rparr>"

definition demo_cli :: "string cli_configuration" where
  "demo_cli = \<lparr>cli_server_addr = Some ''https://cli.example'', cli_database_addr = None,
     cli_authkey_path = Some ''/cli/key.pem'', cli_session_expiration = None, cli_configuration_path = None\<rparr>"

definition empty_yaml :: "'u yaml_configuration" where
  "empty_yaml = \<lparr>yaml_server_addr = None, yaml_database_addr = None, yaml_authkey_path = None,
     yaml_session_expiration = None\<rparr>"

subsection \<open>Shared lemmas\<close>

lemma require_Inr_iff [simp]: "require f xs = Inr v \<longleftrightarrow> first_some xs = Some v"
  by (simp add: require_def split: option.split)

lemma require_Inl_iff [simp]: "require f xs = Inl e \<longleftrightarrow> first_some xs = None \<and> e = MissingOption f"
  by (auto simp: require_def split: option.split)

text \<open>The merge in normal form: three \<open>require\<close> steps over \<open>first_some\<close>.\<close>

lemma layered_merge_normal:
  "layered_merge env cli yaml =
     (case require ServerAddr [env_server_addr env, cli_server_addr cli, yaml_server_addr yaml] of
        Inl e \<Rightarrow> Inl e | Inr s \<Rightarrow>
      case require DatabaseAddr [env_database_addr env, cli_database_addr cli, yaml_database_addr yaml] of
        Inl e \<Rightarrow> Inl e | Inr d \<Rightarrow>
      case require AuthkeyPath [env_authkey_path env, cli_authkey_path cli, yaml_authkey_path yaml] of
        Inl e \<Rightarrow> Inl e | Inr k \<Rightarrow>
        Inr \<lparr>lay_server_addr = s, lay_database_addr = d, lay_authkey_path = k,
             lay_session_expiration =
               duration_from_secs (case first_some [env_session_expiration env,
                   cli_session_expiration cli, yaml_session_expiration yaml] of Some v \<Rightarrow> v | None \<Rightarrow> 60)\<rparr>)"
  by (simp add: layered_merge_def require_def split: option.split)

lemma layered_new_normal:
  "layered_new sv vars args fs =
     (case cli_from_args sv args of
        Inl e \<Rightarrow> (Inl (CliExit e), fs)
      | Inr cli \<Rightarrow>
          (case first_some [vars ''MAELSTROM_CONF_PATH'', cli_configuration_path cli] of
             None \<Rightarrow> (Inl NoConfigurationPath, fs)
           | Some p \<Rightarrow>
               (case yaml_layer_load sv p fs of
                  (Inl e, fs') \<Rightarrow> (Inl e, fs')
                | (Inr yaml, fs') \<Rightarrow> (layered_merge (environment_new sv vars) cli yaml, fs'))))"
  by (simp add: layered_new_def Let_def config_simps cong: sum.case_cong)

lemma layered_merge_file_complete:
  assumes "yaml_server_addr y \<noteq> None" and "yaml_database_addr y \<noteq> None" and "yaml_authkey_path y \<noteq> None"
  shows "\<exists>c. layered_merge env cli y = Inr c"
proof -
  have "first_some [env_server_addr env, cli_server_addr cli, yaml_server_addr y] \<noteq> None"
    using assms(1) by (simp only: first_some_None_iff) auto
  then obtain s where s: "first_some [env_server_addr env, cli_server_addr cli, yaml_server_addr y] = Some s"
    by blast
  have "first_some [env_database_addr env, cli_database_addr cli, yaml_database_addr y] \<noteq> None"
    using assms(2) by (simp only: first_some_None_iff) auto
  then obtain d where d: "first_some [env_database_addr env, cli_database_addr cli, yaml_database_addr y] = Some d"
    by blast
  have "first_some [env_authkey_path env, cli_authkey_path cli, yaml_authkey_path y] \<noteq> None"
    using assms(3) by (simp only: first_some_None_iff) auto
  then obtain k where k: "first_some [env_authkey_path env, cli_authkey_path cli, yaml_authkey_path y] = Some k"
    by blast
  show ?thesis
    unfolding layered_merge_normal require_def s d k by simp
qed

lemma layered_new_frame:
  assumes "layered_new sv vars args fs = (r, fs')"
  shows "fs' = fs \<or> (\<exists>p. files fs p = None \<and> (\<forall>q. q \<noteq> p \<longrightarrow> files fs' q = files fs q)
                           \<and> fcreatable fs' = fcreatable fs \<and> fwrite_ok fs' = fwrite_ok fs)"
proof (cases "cli_from_args sv args")
  case (Inl e)
  with assms show ?thesis by (simp add: layered_new_normal)
next
  case (Inr cli)
  show ?thesis
  proof (cases "first_some [vars ''MAELSTROM_CONF_PATH'', cli_configuration_path cli]")
    case None
    with assms Inr show ?thesis by (simp add: layered_new_normal)
  next
    case (Some p)
    obtain r' fs'' where load: "yaml_layer_load sv p fs = (r', fs'')"
      by (cases "yaml_layer_load sv p fs")
    with assms Inr Some have "fs' = fs''"
      by (auto simp: layered_new_normal split: sum.splits)
    with yaml_layer_load_frame [OF load] show ?thesis by blast
  qed
qed

lemma layered_new_Inl_sources:
  assumes "layered_new sv vars args fs = (Inl e, fs')"
  shows "(\<exists>c. cli_from_args sv args = Inl c \<and> e = CliExit c) \<or> e = NoConfigurationPath \<or>
         (\<exists>p. yaml_layer_load sv p fs = (Inl e, fs')) \<or> (\<exists>f. e = MissingOption f)"
  using assms
  by (auto simp: layered_new_normal layered_merge_normal split: sum.splits option.splits prod.splits)

lemma layered_new_Inr:
  assumes "layered_new sv vars args fs = (Inr lc, fs')"
  shows "\<exists>cli p y. cli_from_args sv args = Inr cli \<and>
           first_some [vars ''MAELSTROM_CONF_PATH'', cli_configuration_path cli] = Some p \<and>
           yaml_layer_load sv p fs = (Inr y, fs') \<and> layered_merge (environment_new sv vars) cli y = Inr lc"
  using assms
  by (auto simp: layered_new_normal split: sum.splits option.splits prod.splits)

subsection \<open>The merger refines its specification\<close>

text \<open>C1: the hand-written nested matches of \<^verbatim>\<open>LayeredServerConfiguration::new\<close> compute
  the abstract resolution over the layers in priority order environment, command line,
  file.\<close>

theorem layered_merge_refines_spec:
  "layered_merge env cli yaml = spec_resolve [env_layer env, cli_layer cli, yaml]"
  by (simp add: layered_merge_normal spec_resolve_def env_layer_def cli_layer_def cong: sum.case_cong)

subsection \<open>Priority\<close>

text \<open>C2: in a successful merge every required field is the first value present in
  environment, command line, file (in that order), and the session expiration is the first
  present one, or 60 seconds; a value in a higher layer wins whatever the lower layers
  hold.\<close>

theorem layered_merge_priority:
  assumes "layered_merge env cli yaml = Inr c"
  shows "first_some [env_server_addr env, cli_server_addr cli, yaml_server_addr yaml] = Some (lay_server_addr c) \<and>
         first_some [env_database_addr env, cli_database_addr cli, yaml_database_addr yaml] = Some (lay_database_addr c) \<and>
         first_some [env_authkey_path env, cli_authkey_path cli, yaml_authkey_path yaml] = Some (lay_authkey_path c) \<and>
         lay_session_expiration c = duration_from_secs
           (case first_some [env_session_expiration env, cli_session_expiration cli, yaml_session_expiration yaml] of
              Some v \<Rightarrow> v | None \<Rightarrow> 60)"
  using assms by (auto simp: layered_merge_normal split: sum.splits)

theorem layered_merge_priority_witness:
  "layered_merge demo_env demo_cli demo_default_yaml =
     Inr \<lparr>lay_server_addr = ''https://cli.example'', lay_database_addr = ''postgres://env.example'',
          lay_authkey_path = ''/cli/key.pem'', lay_session_expiration = duration_from_secs 3000\<rparr> \<and>
   first_some [env_server_addr demo_env, cli_server_addr demo_cli, yaml_server_addr demo_default_yaml]
     = Some ''https://cli.example'' \<and>
   first_some [env_database_addr demo_env, cli_database_addr demo_cli, yaml_database_addr demo_default_yaml]
     = Some ''postgres://env.example''"
proof -
  have run: "layered_merge demo_env demo_cli demo_default_yaml =
     Inr \<lparr>lay_server_addr = ''https://cli.example'', lay_database_addr = ''postgres://env.example'',
          lay_authkey_path = ''/cli/key.pem'', lay_session_expiration = duration_from_secs 3000\<rparr>"
    by (simp add: layered_merge_def demo_env_def demo_cli_def demo_default_yaml_def)
  show ?thesis
    using run layered_merge_priority [OF run] by simp
qed

subsection \<open>Missing required fields\<close>

text \<open>C3: the merge fails exactly when a required field is absent from all three layers,
  and the error names the first such field in declaration order (server address, database
  address, key path); it fails with no other error.\<close>

theorem layered_merge_missing:
  "layered_merge env cli yaml = Inl e \<longleftrightarrow>
     (let ls = [env_layer env, cli_layer cli, yaml] in
      \<not> present ls ServerAddr \<and> e = MissingOption ServerAddr \<or>
      present ls ServerAddr \<and> \<not> present ls DatabaseAddr \<and> e = MissingOption DatabaseAddr \<or>
      present ls ServerAddr \<and> present ls DatabaseAddr \<and> \<not> present ls AuthkeyPath \<and>
        e = MissingOption AuthkeyPath)"
  by (auto simp: layered_merge_normal env_layer_def cli_layer_def split: sum.splits option.splits)

theorem layered_merge_missing_witness:
  "layered_merge demo_env (demo_cli\<lparr>cli_authkey_path := None\<rparr>) (empty_yaml :: string yaml_configuration)
     = Inl (MissingOption AuthkeyPath) \<and>
   present [env_layer demo_env, cli_layer (demo_cli\<lparr>cli_authkey_path := None\<rparr>), empty_yaml] ServerAddr \<and>
   present [env_layer demo_env, cli_layer (demo_cli\<lparr>cli_authkey_path := None\<rparr>), empty_yaml] DatabaseAddr \<and>
   \<not> present [env_layer demo_env, cli_layer (demo_cli\<lparr>cli_authkey_path := None\<rparr>), empty_yaml] AuthkeyPath"
proof -
  have p: "present [env_layer demo_env, cli_layer (demo_cli\<lparr>cli_authkey_path := None\<rparr>), empty_yaml] ServerAddr"
          "present [env_layer demo_env, cli_layer (demo_cli\<lparr>cli_authkey_path := None\<rparr>), empty_yaml] DatabaseAddr"
          "\<not> present [env_layer demo_env, cli_layer (demo_cli\<lparr>cli_authkey_path := None\<rparr>), empty_yaml] AuthkeyPath"
    by (simp_all add: env_layer_def cli_layer_def demo_env_def demo_cli_def empty_yaml_def)
  show ?thesis
    using layered_merge_missing [of demo_env "demo_cli\<lparr>cli_authkey_path := None\<rparr>" empty_yaml
        "MissingOption AuthkeyPath"] p
    by (simp add: Let_def)
qed

subsection \<open>The built-in session lifetime\<close>

text \<open>C4: when no layer sets the session expiration and every required field is present,
  the merge succeeds with a session lifetime of exactly 60 seconds.\<close>

theorem layered_merge_default_lifetime:
  assumes "env_session_expiration env = None" and "cli_session_expiration cli = None"
    and "yaml_session_expiration yaml = None"
    and "\<forall>f. present [env_layer env, cli_layer cli, yaml] f"
  shows "\<exists>c. layered_merge env cli yaml = Inr c \<and> lay_session_expiration c = \<lparr>dur_secs = 60, dur_nanos = 0\<rparr>"
proof -
  have "present [env_layer env, cli_layer cli, yaml] ServerAddr"
       "present [env_layer env, cli_layer cli, yaml] DatabaseAddr"
       "present [env_layer env, cli_layer cli, yaml] AuthkeyPath"
    using assms(4) by blast+
  with assms(1-3) show ?thesis
    by (auto simp: layered_merge_normal env_layer_def cli_layer_def duration_from_secs_def
        split: sum.splits option.splits)
qed

theorem layered_merge_default_lifetime_witness:
  "env_session_expiration demo_env = None \<and> cli_session_expiration demo_cli = None \<and>
   yaml_session_expiration (empty_yaml :: string yaml_configuration) = None \<and>
   (\<forall>f. present [env_layer demo_env, cli_layer demo_cli, empty_yaml] f) \<and>
   (\<exists>c. layered_merge demo_env demo_cli empty_yaml = Inr c \<and>
        lay_session_expiration c = \<lparr>dur_secs = 60, dur_nanos = 0\<rparr>)"
proof -
  have h: "env_session_expiration demo_env = None" "cli_session_expiration demo_cli = None"
          "yaml_session_expiration (empty_yaml :: string yaml_configuration) = None"
    by (simp_all add: demo_env_def demo_cli_def empty_yaml_def)
  have p: "\<forall>f. present [env_layer demo_env, cli_layer demo_cli, (empty_yaml :: string yaml_configuration)] f"
  proof
    fix f show "present [env_layer demo_env, cli_layer demo_cli, (empty_yaml :: string yaml_configuration)] f"
      by (cases f) (simp_all add: env_layer_def cli_layer_def demo_env_def demo_cli_def empty_yaml_def)
  qed
  show ?thesis
    using h p layered_merge_default_lifetime [OF h p] by blast
qed

end
