(* ===== verification/Server.thy ===== *)
theory Server
  imports Layered
begin

text \<open>
  \<^verbatim>\<open>ServerConfiguration::new\<close> (mod.rs lines 267-301): build the layered configuration,
  then load the signing key from the merged key path. The key loader (\<open>load_authkey\<close>,
  lines 273-297) opens the file, asks for its metadata to size the buffer (an error there
  reaches \<^verbatim>\<open>unimplemented!()\<close>, a panic), reads the whole file and decodes it with
  \<^verbatim>\<open>EncodingKey::from_ec_pem\<close>; each failure ends the process. The key is read from the
  file system as the settings layer left it. The lemmas characterise a successful load,
  the one failure that panics instead of reporting, and how the assembled configuration
  is made of the merged one.
\<close>

definition load_authkey :: "('u, 'k) services \<Rightarrow> path \<Rightarrow> filesystem \<Rightarrow> config_error + 'k" where
  "load_authkey sv authkey_path fs =
     (case fs_open_read fs authkey_path of
        Inl e \<Rightarrow> Inl (AuthkeyOpenFailed e)
      | Inr f \<Rightarrow>
          (if \<not> fmeta_ok f then Inl AuthkeyMetadataPanic
           else
             (case fs_read_to_end f of
                Inl e \<Rightarrow> Inl (AuthkeyReadFailed e)
              | Inr key \<Rightarrow>
                  (case ec_pem_decode sv key of
                     None \<Rightarrow> Inl AuthkeyParseFailed
                   | Some k \<Rightarrow> Inr k))))"

definition server_new ::
  "('u, 'k) services \<Rightarrow> env_vars \<Rightarrow> string list \<Rightarrow> filesystem
     \<Rightarrow> (config_error + ('u, 'k) server_configuration) \<times> filesystem" where
  "server_new sv vars args fs =
     (case layered_new sv vars args fs of
        (Inl e, fs') \<Rightarrow> (Inl e, fs')
      | (Inr layered_configuration, fs') \<Rightarrow>
          (case load_authkey sv (lay_authkey_path layered_configuration) fs' of
             Inl e \<Rightarrow> (Inl e, fs')
           | Inr authkey \<Rightarrow>
               (Inr \<lparr>srv_server_addr = lay_server_addr layered_configuration,
                     srv_database_addr = lay_database_addr layered_configuration,
                     srv_authkey = authkey,
                     srv_session_expiration = lay_session_expiration layered_configuration\<rparr>, fs')))"

subsection \<open>Shared lemmas\<close>

lemma server_new_fs [simp]: "snd (server_new sv vars args fs) = snd (layered_new sv vars args fs)"
  by (simp add: server_new_def split: prod.split sum.split)

lemma server_new_Inr:
  "server_new sv vars args fs = (Inr c, fs') \<Longrightarrow>
     \<exists>lc. layered_new sv vars args fs = (Inr lc, fs') \<and> load_authkey sv (lay_authkey_path lc) fs' = Inr (srv_authkey c) \<and>
       srv_server_addr c = lay_server_addr lc \<and> srv_database_addr c = lay_database_addr lc \<and>
       srv_session_expiration c = lay_session_expiration lc"
  by (auto simp: server_new_def split: prod.splits sum.splits)

lemma server_new_Inl:
  "server_new sv vars args fs = (Inl e, fs') \<Longrightarrow>
     layered_new sv vars args fs = (Inl e, fs') \<or>
     (\<exists>lc. layered_new sv vars args fs = (Inr lc, fs') \<and> load_authkey sv (lay_authkey_path lc) fs' = Inl e)"
  by (auto simp: server_new_def split: prod.splits sum.splits)

lemma load_authkey_Inl_cases:
  "load_authkey sv p fs = Inl e \<Longrightarrow>
     (\<exists>k. e = AuthkeyOpenFailed k) \<or> e = AuthkeyMetadataPanic \<or> (\<exists>k. e = AuthkeyReadFailed k) \<or> e = AuthkeyParseFailed"
  by (auto simp: load_authkey_def split: sum.splits option.splits if_splits)

subsection \<open>The key loader\<close>

text \<open>C20: the key loads exactly when the key file exists, is readable, its metadata and
  its contents can be read, and the contents decode as an EC PEM key; the key is the
  decoded contents.\<close>

theorem load_authkey_success:
  "load_authkey sv p fs = Inr k \<longleftrightarrow>
     (\<exists>f. files fs p = Some f \<and> freadable f \<and> fmeta_ok f \<and> fread_ok f \<and> ec_pem_decode sv (fdata f) = Some k)"
  by (auto simp: load_authkey_def fs_open_read_def fs_read_to_end_def split: option.splits if_splits sum.splits)

theorem load_authkey_success_witness:
  "(\<exists>f. files (demo_fs\<lparr>files := [''/k.pem'' \<mapsto> demo_file ''PEM'']\<rparr>) ''/k.pem'' = Some f \<and> freadable f \<and>
        fmeta_ok f \<and> fread_ok f \<and> ec_pem_decode demo_services (fdata f) = Some ''es256-key'') \<and>
   load_authkey demo_services ''/k.pem'' (demo_fs\<lparr>files := [''/k.pem'' \<mapsto> demo_file ''PEM'']\<rparr>) = Inr ''es256-key''"
proof -
  have ex: "\<exists>f. files (demo_fs\<lparr>files := [''/k.pem'' \<mapsto> demo_file ''PEM'']\<rparr>) ''/k.pem'' = Some f \<and> freadable f \<and>
        fmeta_ok f \<and> fread_ok f \<and> ec_pem_decode demo_services (fdata f) = Some ''es256-key''"
    by (intro exI [of _ "demo_file ''PEM''"]) (simp add: demo_file_def demo_services_def)
  show ?thesis
    using ex load_authkey_success [of demo_services "''/k.pem''"
        "demo_fs\<lparr>files := [''/k.pem'' \<mapsto> demo_file ''PEM'']\<rparr>" "''es256-key''"]
    by blast
qed

text \<open>C21: when the key file opens but its metadata cannot be read, the loader does not
  report the failure and exit with status 1 like every other key error: it reaches
  \<^verbatim>\<open>unimplemented!()\<close> and panics (status 101).\<close>

theorem load_authkey_metadata_panic:
  assumes "files fs p = Some f" and "freadable f" and "\<not> fmeta_ok f"
  shows "load_authkey sv p fs = Inl AuthkeyMetadataPanic \<and> exit_code AuthkeyMetadataPanic = 101"
  using assms by (simp add: load_authkey_def fs_open_read_def)

theorem load_authkey_metadata_panic_witness:
  "files (demo_fs\<lparr>files := [''/k.pem'' \<mapsto> (demo_file ''PEM'')\<lparr>fmeta_ok := False\<rparr>]\<rparr>) ''/k.pem''
     = Some ((demo_file ''PEM'')\<lparr>fmeta_ok := False\<rparr>) \<and>
   freadable ((demo_file ''PEM'')\<lparr>fmeta_ok := False\<rparr>) \<and>
   \<not> fmeta_ok ((demo_file ''PEM'')\<lparr>fmeta_ok := False\<rparr>) \<and>
   load_authkey demo_services ''/k.pem''
     (demo_fs\<lparr>files := [''/k.pem'' \<mapsto> (demo_file ''PEM'')\<lparr>fmeta_ok := False\<rparr>]\<rparr>) = Inl AuthkeyMetadataPanic"
proof -
  have r: "freadable ((demo_file ''PEM'')\<lparr>fmeta_ok := False\<rparr>)"
    by (simp add: demo_file_def)
  show ?thesis
    using load_authkey_metadata_panic
      [of "demo_fs\<lparr>files := [''/k.pem'' \<mapsto> (demo_file ''PEM'')\<lparr>fmeta_ok := False\<rparr>]\<rparr>" "''/k.pem''"
        "(demo_file ''PEM'')\<lparr>fmeta_ok := False\<rparr>" demo_services] r
    by simp
qed

end
