(* ===== verification/Spec2Isabelle.thy ===== *)
theory Spec2Isabelle
  imports Server
begin

text \<open>
  \<^bold>\<open>Maelstrom's layered configuration resolver in Isabelle/HOL.\<close>

  The program is \<^verbatim>\<open>src/src/configuration/mod.rs\<close>. At start-up the server builds a
  \<^verbatim>\<open>ServerConfiguration\<close> from three layers of settings: the process environment
  (\<^verbatim>\<open>EnvironmentConfiguration::new\<close>), the command line (\<^verbatim>\<open>CliConfiguration::from_args\<close>,
  derived by \<^verbatim>\<open>structopt\<close>) and a YAML settings file whose path comes from the environment
  or else the command line. \<^verbatim>\<open>LayeredServerConfiguration::new\<close> loads that file, or writes
  \<^verbatim>\<open>YamlConfiguration::default\<close> with \<^verbatim>\<open>save\<close> when it is missing, and merges the layers
  field by field with priority environment, command line, file. \<^verbatim>\<open>ServerConfiguration::new\<close>
  then loads the ES256 key named by the merged key path. Every failure ends the process.

  \<^bold>\<open>Theories, in import order.\<close>
  \<^item> \<open>Config_Prelude\<close>: type names (\<open>u64\<close> as \<open>64 word\<close>, \<open>path\<close>, \<open>env_vars\<close>), the
    collection \<open>config_simps\<close>, and \<open>first_some\<close>, the first present value of a priority
    list, to which the nested \<^verbatim>\<open>match\<close>es of the source reduce.
  \<^item> \<open>Rust_Std\<close>: \<^verbatim>\<open>u64::from_str\<close> as the standard library implements it (optional
    \<^verbatim>\<open>+\<close>, then per digit \<^verbatim>\<open>checked_mul\<close> and \<^verbatim>\<open>checked_add\<close>) and
    \<^verbatim>\<open>Duration::from_secs\<close>. The digit loop is proved equal to a reference reading of decimal
    numerals (\<open>u64_accumulate_eq\<close>, \<open>u64_from_str_eq_spec\<close>), and the parser inverse to the
    printer; numerals of \<open>2 ^ 64\<close> or more are rejected, never wrapped.
  \<^item> \<open>Fs\<close>: the file system as an explicit state (\<open>filesystem\<close>): \<^verbatim>\<open>File::open\<close>,
    \<^verbatim>\<open>read_to_end\<close>, \<^verbatim>\<open>OpenOptions::write.create.open\<close> (no truncation) and
    \<^verbatim>\<open>write_all\<close>, with frame lemmas.
  \<^item> \<open>Config_Types\<close>: the five structs (lines 16-85) as records with layer-prefixed fields;
    the interface \<open>services\<close> to the libraries the code only calls (\<^verbatim>\<open>Url::parse\<close>,
    serde_yaml, \<^verbatim>\<open>EncodingKey::from_ec_pem\<close>), a parameter of every operation; the error
    type with one constructor per \<^verbatim>\<open>exit(1)\<close> or panic site and \<open>exit_code\<close>; the concrete
    instance \<open>demo_services\<close> used by the examples.
  \<^item> \<open>Env_Layer\<close> (lines 87-133), \<open>Cli_Layer\<close> (the derived parser of lines 30-42:
    five optional positional arguments, help and version flags, validation by
    \<^verbatim>\<open>FromStr\<close>), \<open>Yaml_Layer\<close> (lines 135-166 and 183-212), \<open>Layered\<close> (lines
    169-265, with the abstract specification \<open>spec_resolve\<close>), \<open>Server\<close> (lines 267-301).
  \<^item> this theory: the properties of the assembled start-up, \<open>server_new\<close>.

  \<^bold>\<open>What is proved.\<close> The merger refines the abstract resolution over priority-ordered
  layers; each merged field is the first present value, a missing required field is named
  exactly, and the lifetime defaults to 60 seconds. The environment treats malformed values
  as absent and reads the lifetime exactly (equivalence with the reference reading, round
  trip, no wrap-around); the command line assigns positional values and makes malformed
  ones fatal. The file layer's first run writes the file the next run reads; corrupt or
  unreadable files are fatal and leave the disk alone; \<^verbatim>\<open>save\<close> keeps the stale tail of a
  longer existing file. Start-up writes at most the one missing settings file, never misses
  a required option on a first run, exits non-zero on every failure but help/version,
  and takes each final value from the layer the priority order names. Every first run with
  no lifetime in the environment or on the command line (the specification's scenario is
  one) runs with the default file's 3000-second lifetime, not the 60 seconds the
  specification expects. A metadata error on the key file panics instead of being reported.

  \<^bold>\<open>Bounds and fuel.\<close> No loop of the model needs fuel: the digit loop and the argument scan
  recurse on their list; the decimal printer recurses on \<open>n div 10\<close>. Session lifetimes
  are \<open>64 word\<close> values, the width of the source's \<^verbatim>\<open>u64\<close>.

  \<^bold>\<open>Not modelled.\<close> The internals of \<^verbatim>\<open>Url::parse\<close>, serde_yaml and the PEM decoder
  (parameters; the YAML round trip takes "the codec reads back what it writes" as a
  hypothesis); clap's message texts and non-UTF-8 arguments; partial writes before a failing
  \<^verbatim>\<open>write_all\<close>; \<^verbatim>\<open>YamlConfiguration::load\<close>, which is \<^verbatim>\<open>unimplemented!()\<close> and never
  called; logging, which has no effect on results.

  \<^bold>\<open>Plan for the next sittings.\<close> (1) A concrete model of the serde_yaml encoding of
  \<^verbatim>\<open>YamlConfiguration\<close> (the four keys, \<^verbatim>\<open>Option\<close> as \<^verbatim>\<open>null\<close>) with its own
  encode/decode round trip, discharging the codec hypothesis. (2) The start-up as an
  \<open>inductive\<close> step relation over phases (environment, command line, path, file, merge,
  key), with the functional model shown to be its unique run. (3) More of clap: a help flag
  after \<^verbatim>\<open>--\<close> is a value, a sixth positional is rejected, help anywhere before the first
  error wins. (4) Properties of a second start-up after a first one (idempotence of the
  settings file).
\<close>

section \<open>The assembled start-up\<close>

subsection \<open>The scenario of the specification\<close>

text \<open>The environment supplies the database address and the settings-file path, the command
  line a server address, a database address and a key path (positional arguments cannot
  skip the database address), no settings file exists, and the key file holds a valid key.\<close>

definition scenario_vars :: env_vars where
  "scenario_vars = Map.empty(''MAELSTROM_DATABASE_ADDRESS'' := Some ''postgres://env.example'',
                             ''MAELSTROM_CONF_PATH'' := Some ''/etc/maelstrom.yaml'')"

definition scenario_args :: "string list" where
  "scenario_args = [''https://cli.example'', ''postgres://cli.example'', ''/cli/key.pem'']"

definition scenario_fs :: filesystem where
  "scenario_fs = demo_fs\<lparr>files := [''/cli/key.pem'' \<mapsto> demo_file ''PEM'']\<rparr>"

definition scenario_cli :: "string cli_configuration" where
  "scenario_cli = \<lparr>cli_server_addr = Some ''https://cli.example'', cli_database_addr = Some ''postgres://cli.example'',
     cli_authkey_path = Some ''/cli/key.pem'', cli_session_expiration = None, cli_configuration_path = None\<rparr>"

definition scenario_result :: "(string, string) server_configuration" where
  "scenario_result = \<lparr>srv_server_addr = ''https://cli.example'', srv_database_addr = ''postgres://env.example'',
     srv_authkey = ''es256-key'', srv_session_expiration = duration_from_secs 3000\<rparr>"

definition scenario_fs1 :: filesystem where
  "scenario_fs1 = scenario_fs\<lparr>files := (files scenario_fs)(''/etc/maelstrom.yaml'' \<mapsto> demo_file ''default'')\<rparr>"

lemma scenario_cli_parse: "cli_from_args demo_services scenario_args = Inr scenario_cli"
  by (simp add: scenario_args_def scenario_cli_def cli_from_args_def is_flag_def cli_value_def nth_opt_def
      demo_services_def demo_url_parse_def)

lemma scenario_yaml:
  "yaml_layer_load demo_services ''/etc/maelstrom.yaml'' scenario_fs = (Inr demo_default_yaml, scenario_fs1)"
proof -
  have o: "fs_open_read scenario_fs ''/etc/maelstrom.yaml'' = Inl NotFound"
    by (simp add: scenario_fs_def demo_fs_def fs_open_read_def)
  have e: "yaml_to_string demo_services demo_default_yaml = Some ''default''"
    by (simp add: demo_services_def)
  have s: "yaml_save demo_services demo_default_yaml ''/etc/maelstrom.yaml'' scenario_fs = (Inr (), scenario_fs1)"
    unfolding yaml_save_def e
    by (simp add: scenario_fs1_def scenario_fs_def demo_fs_def fs_open_write_create_def fs_write_all_def
        new_file_def demo_file_def)
  show ?thesis
    unfolding yaml_layer_load_def o by (simp add: demo_default s)
qed

lemma scenario_server_new:
  "server_new demo_services scenario_vars scenario_args scenario_fs = (Inr scenario_result, scenario_fs1)"
proof -
  have env: "environment_new demo_services scenario_vars =
      \<lparr>env_server_addr = None, env_database_addr = Some ''postgres://env.example'', env_authkey_path = None,
       env_session_expiration = None, env_configuration_path = Some ''/etc/maelstrom.yaml''\<rparr>"
    by (simp add: environment_new_eq scenario_vars_def demo_services_def demo_url_parse_def)
  have key: "load_authkey demo_services ''/cli/key.pem'' scenario_fs1 = Inr ''es256-key''"
    by (simp add: load_authkey_def scenario_fs1_def scenario_fs_def fs_open_read_def fs_read_to_end_def
        demo_file_def demo_services_def)
  show ?thesis
    using scenario_cli_parse scenario_yaml env key
    by (simp add: server_new_def layered_new_def layered_merge_def demo_default_yaml_def scenario_cli_def
        scenario_result_def)
qed

text \<open>C5: on a first run (the settings file named by the environment or the command line
  does not exist) with no session lifetime in the environment or on the command line, every
  successful start-up runs with a session lifetime of 3000 seconds, whatever the services,
  the variables, the arguments and the file system: the default settings just written are
  used as the file layer in the same run, so their lifetime wins over the built-in
  60 seconds that the specification expects in this situation.\<close>

theorem server_new_first_run_lifetime:
  assumes run: "server_new sv vars args fs = (Inr c, fs')"
    and cli: "cli_from_args sv args = Inr cli"
    and path: "first_some [vars ''MAELSTROM_CONF_PATH'', cli_configuration_path cli] = Some p"
    and absent: "files fs p = None"
    and unset: "first_some [Option.bind (vars ''MAELSTROM_SESSION_EXPIRATION'') u64_from_str,
                            cli_session_expiration cli] = None"
  shows "srv_session_expiration c = duration_from_secs 3000"
proof -
  obtain lc where ln: "layered_new sv vars args fs = (Inr lc, fs')"
      and ses: "srv_session_expiration c = lay_session_expiration lc"
    using server_new_Inr [OF run] by blast
  then obtain y where load: "yaml_layer_load sv p fs = (Inr y, fs')"
      and merge: "layered_merge (environment_new sv vars) cli y = Inr lc"
    using layered_new_Inr [OF ln] cli path by auto
  have "yaml_session_expiration y = Some 3000"
    using yaml_layer_load_absent [OF absent load] by (rule yaml_default_session)
  moreover have "env_session_expiration (environment_new sv vars) = None" "cli_session_expiration cli = None"
    using unset [unfolded first_some_None_iff] by (simp_all add: environment_new_fields)
  ultimately have "lay_session_expiration lc = duration_from_secs 3000"
    using merge by (auto simp: layered_merge_normal split: sum.splits)
  with ses show ?thesis by simp
qed

theorem server_new_first_run_lifetime_witness:
  "server_new demo_services scenario_vars scenario_args scenario_fs = (Inr scenario_result, scenario_fs1) \<and>
   cli_from_args demo_services scenario_args = Inr scenario_cli \<and>
   first_some [scenario_vars ''MAELSTROM_CONF_PATH'', cli_configuration_path scenario_cli] = Some ''/etc/maelstrom.yaml'' \<and>
   files scenario_fs ''/etc/maelstrom.yaml'' = None \<and>
   first_some [Option.bind (scenario_vars ''MAELSTROM_SESSION_EXPIRATION'') u64_from_str,
               cli_session_expiration scenario_cli] = None \<and>
   srv_session_expiration scenario_result = duration_from_secs 3000"
proof -
  have h: "first_some [scenario_vars ''MAELSTROM_CONF_PATH'', cli_configuration_path scenario_cli] = Some ''/etc/maelstrom.yaml''"
          "files scenario_fs ''/etc/maelstrom.yaml'' = None"
          "first_some [Option.bind (scenario_vars ''MAELSTROM_SESSION_EXPIRATION'') u64_from_str,
               cli_session_expiration scenario_cli] = None"
    by (simp_all add: scenario_vars_def scenario_cli_def scenario_fs_def demo_fs_def)
  show ?thesis
    using scenario_server_new scenario_cli_parse h server_new_first_run_lifetime
      [where sv = demo_services and vars = scenario_vars and args = scenario_args and fs = scenario_fs
         and c = scenario_result and fs' = scenario_fs1 and cli = scenario_cli and p = "''/etc/maelstrom.yaml''"]
    by simp
qed

subsection \<open>The first run never misses a required setting\<close>

text \<open>C6: when the settings file named by the environment or the command line does not
  exist, the resolution never fails for a missing required option: the default file it
  writes supplies every required field.\<close>

theorem layered_new_first_run_complete:
  assumes cli: "cli_from_args sv args = Inr cli"
    and path: "first_some [vars ''MAELSTROM_CONF_PATH'', cli_configuration_path cli] = Some p"
    and absent: "files fs p = None"
  shows "fst (layered_new sv vars args fs) \<noteq> Inl (MissingOption f)"
proof -
  obtain r fs' where load: "yaml_layer_load sv p fs = (r, fs')"
    by (cases "yaml_layer_load sv p fs")
  have run: "layered_new sv vars args fs =
      (case r of Inl e \<Rightarrow> (Inl e, fs') | Inr y \<Rightarrow> (layered_merge (environment_new sv vars) cli y, fs'))"
  proof -
    have "layered_new sv vars args fs =
        (case yaml_layer_load sv p fs of (Inl e, fs') \<Rightarrow> (Inl e, fs')
         | (Inr yaml, fs') \<Rightarrow> (layered_merge (environment_new sv vars) cli yaml, fs'))"
      unfolding layered_new_normal cli sum.case path option.case ..
    then show ?thesis
      using load by (cases r) simp_all
  qed
  show ?thesis
  proof (cases r)
    case (Inl e)
    then show ?thesis
      using run yaml_layer_load_Inl_not_missing [of sv p fs e fs' f] load by simp
  next
    case (Inr y)
    have "yaml_default sv = Inr y"
      using yaml_layer_load_absent [OF absent, of sv y fs'] load Inr by simp
    then have "yaml_server_addr y \<noteq> None \<and> yaml_database_addr y \<noteq> None \<and> yaml_authkey_path y \<noteq> None"
      by (rule yaml_default_complete)
    then obtain c where "layered_merge (environment_new sv vars) cli y = Inr c"
      using layered_merge_file_complete [of y "environment_new sv vars" cli] by auto
    with Inr run show ?thesis by simp
  qed
qed

theorem layered_new_first_run_complete_witness:
  "cli_from_args demo_services scenario_args = Inr scenario_cli \<and>
   first_some [scenario_vars ''MAELSTROM_CONF_PATH'', cli_configuration_path scenario_cli] = Some ''/etc/maelstrom.yaml'' \<and>
   files scenario_fs ''/etc/maelstrom.yaml'' = None \<and>
   fst (layered_new demo_services scenario_vars scenario_args scenario_fs) \<noteq> Inl (MissingOption ServerAddr)"
proof -
  have h: "first_some [scenario_vars ''MAELSTROM_CONF_PATH'', cli_configuration_path scenario_cli] = Some ''/etc/maelstrom.yaml''"
          "files scenario_fs ''/etc/maelstrom.yaml'' = None"
    by (simp_all add: scenario_vars_def scenario_cli_def scenario_fs_def demo_fs_def)
  show ?thesis
    using scenario_cli_parse h layered_new_first_run_complete
      [where sv = demo_services and args = scenario_args and cli = scenario_cli and vars = scenario_vars
         and p = "''/etc/maelstrom.yaml''" and fs = scenario_fs and f = ServerAddr]
    by simp
qed

subsection \<open>Start-up writes at most the missing settings file\<close>

text \<open>C7: whatever its outcome, start-up leaves the file system unchanged, or the settings
  file was missing and only that path changed (the key file and every other path are
  untouched, as are the creation and write permissions).\<close>

theorem server_new_frame:
  assumes "server_new sv vars args fs = (r, fs')"
  shows "fs' = fs \<or> (\<exists>p. files fs p = None \<and> (\<forall>q. q \<noteq> p \<longrightarrow> files fs' q = files fs q)
                           \<and> fcreatable fs' = fcreatable fs \<and> fwrite_ok fs' = fwrite_ok fs)"
proof -
  have "snd (layered_new sv vars args fs) = fs'"
    using server_new_fs [of sv vars args fs] assms by simp
  then obtain r' where "layered_new sv vars args fs = (r', fs')"
    by (metis prod.collapse)
  then show ?thesis by (rule layered_new_frame)
qed

theorem server_new_frame_witness:
  "server_new demo_services scenario_vars scenario_args scenario_fs = (Inr scenario_result, scenario_fs1) \<and>
   files scenario_fs1 ''/cli/key.pem'' = files scenario_fs ''/cli/key.pem''"
proof -
  have key: "files scenario_fs ''/cli/key.pem'' = Some (demo_file ''PEM'')"
    by (simp add: scenario_fs_def)
  from server_new_frame [OF scenario_server_new]
  have "files scenario_fs1 ''/cli/key.pem'' = files scenario_fs ''/cli/key.pem''"
  proof
    assume "scenario_fs1 = scenario_fs"
    then show ?thesis by simp
  next
    assume "\<exists>p. files scenario_fs p = None \<and> (\<forall>q. q \<noteq> p \<longrightarrow> files scenario_fs1 q = files scenario_fs q)
              \<and> fcreatable scenario_fs1 = fcreatable scenario_fs \<and> fwrite_ok scenario_fs1 = fwrite_ok scenario_fs"
    then obtain p where "files scenario_fs p = None" and "\<forall>q. q \<noteq> p \<longrightarrow> files scenario_fs1 q = files scenario_fs q"
      by blast
    with key show ?thesis by (metis option.distinct(1))
  qed
  with scenario_server_new show ?thesis by simp
qed

subsection \<open>Exit status\<close>

text \<open>C17: every failed start-up ends the process with a non-zero status, except a request
  for help or version on the command line.\<close>

theorem server_new_exit_status:
  assumes "server_new sv vars args fs = (Inl e, fs')"
  shows "exit_code e \<noteq> 0 \<or> cli_from_args sv args = Inl CliHelp \<or> cli_from_args sv args = Inl CliVersion"
proof (cases "exit_code e = 0")
  case True
  then have zero: "e = CliExit CliHelp \<or> e = CliExit CliVersion"
    by (simp add: exit_code_zero)
  from server_new_Inl [OF assms] show ?thesis
  proof
    assume "layered_new sv vars args fs = (Inl e, fs')"
    from layered_new_Inl_sources [OF this] zero yaml_layer_load_Inl_cases show ?thesis
      by fastforce
  next
    assume "\<exists>lc. layered_new sv vars args fs = (Inr lc, fs') \<and> load_authkey sv (lay_authkey_path lc) fs' = Inl e"
    with zero load_authkey_Inl_cases show ?thesis
      by fastforce
  qed
qed simp

theorem server_new_exit_status_witness:
  "server_new demo_services Map.empty [] demo_fs = (Inl NoConfigurationPath, demo_fs) \<and>
   0 < exit_code NoConfigurationPath"
proof -
  have run: "server_new demo_services Map.empty [] demo_fs = (Inl NoConfigurationPath, demo_fs)"
    by (simp add: server_new_def layered_new_normal cli_from_args_def cli_value_def nth_opt_def)
  have c: "cli_from_args demo_services [] \<noteq> Inl CliHelp \<and> cli_from_args demo_services [] \<noteq> Inl CliVersion"
    by (simp add: cli_from_args_def cli_value_def nth_opt_def)
  from server_new_exit_status [OF run] c have nz: "exit_code NoConfigurationPath \<noteq> 0"
    by blast
  then have pos: "0 < exit_code NoConfigurationPath"
    by (simp only: neq0_conv)
  show ?thesis by (intro conjI run pos)
qed

subsection \<open>The settings-file path is required\<close>

text \<open>C18: when neither \<^verbatim>\<open>MAELSTROM_CONF_PATH\<close> nor the command line gives a settings-file
  path, start-up fails with the missing-path error before touching the file system; the path
  is never looked for in the settings file itself.\<close>

theorem server_new_no_configuration_path:
  assumes "cli_from_args sv args = Inr cli" and "vars ''MAELSTROM_CONF_PATH'' = None"
    and "cli_configuration_path cli = None"
  shows "server_new sv vars args fs = (Inl NoConfigurationPath, fs)"
  using assms by (simp add: server_new_def layered_new_normal)

theorem server_new_no_configuration_path_witness:
  "cli_from_args demo_services [''https://a.example''] =
     Inr \<lparr>cli_server_addr = Some ''https://a.example'', cli_database_addr = None, cli_authkey_path = None,
          cli_session_expiration = None, cli_configuration_path = None\<rparr> \<and>
   server_new demo_services Map.empty [''https://a.example''] demo_fs = (Inl NoConfigurationPath, demo_fs)"
proof -
  have c: "cli_from_args demo_services [''https://a.example''] =
     Inr \<lparr>cli_server_addr = Some ''https://a.example'', cli_database_addr = None, cli_authkey_path = None,
          cli_session_expiration = None, cli_configuration_path = None\<rparr>"
    by (simp add: cli_from_args_def is_flag_def cli_value_def nth_opt_def demo_services_def demo_url_parse_def)
  show ?thesis
    using c server_new_no_configuration_path [OF c, of Map.empty demo_fs] by simp
qed

subsection \<open>Where the final configuration comes from\<close>

text \<open>C19: a successful start-up parsed the command line, read the settings file at the path
  given by the environment or else the command line, took each address as the first present
  value of environment (after \<^verbatim>\<open>Url::parse\<close>), command line and file, and loaded the key
  from the first present key path, on the file system as the settings step left it.\<close>

theorem server_new_provenance:
  assumes "server_new sv vars args fs = (Inr c, fs')"
  shows "\<exists>cli p y. cli_from_args sv args = Inr cli \<and>
           first_some [vars ''MAELSTROM_CONF_PATH'', cli_configuration_path cli] = Some p \<and>
           yaml_layer_load sv p fs = (Inr y, fs') \<and>
           first_some [Option.bind (vars ''MAELSTROM_SERVER_ADDRESS'') (url_parse sv), cli_server_addr cli,
                       yaml_server_addr y] = Some (srv_server_addr c) \<and>
           first_some [Option.bind (vars ''MAELSTROM_DATABASE_ADDRESS'') (url_parse sv), cli_database_addr cli,
                       yaml_database_addr y] = Some (srv_database_addr c) \<and>
           (\<exists>kp. first_some [vars ''MAELSTROM_AUTHKEY_PATH'', cli_authkey_path cli, yaml_authkey_path y] = Some kp \<and>
                 load_authkey sv kp fs' = Inr (srv_authkey c))"
proof -
  obtain lc where lc: "layered_new sv vars args fs = (Inr lc, fs')"
    and key: "load_authkey sv (lay_authkey_path lc) fs' = Inr (srv_authkey c)"
    and fields: "srv_server_addr c = lay_server_addr lc" "srv_database_addr c = lay_database_addr lc"
    using server_new_Inr [OF assms] by blast
  obtain cli p y where cli: "cli_from_args sv args = Inr cli"
    and path: "first_some [vars ''MAELSTROM_CONF_PATH'', cli_configuration_path cli] = Some p"
    and load: "yaml_layer_load sv p fs = (Inr y, fs')"
    and merge: "layered_merge (environment_new sv vars) cli y = Inr lc"
    using layered_new_Inr [OF lc] by blast
  from merge have
    "first_some [Option.bind (vars ''MAELSTROM_SERVER_ADDRESS'') (url_parse sv), cli_server_addr cli,
                 yaml_server_addr y] = Some (lay_server_addr lc) \<and>
     first_some [Option.bind (vars ''MAELSTROM_DATABASE_ADDRESS'') (url_parse sv), cli_database_addr cli,
                 yaml_database_addr y] = Some (lay_database_addr lc) \<and>
     first_some [vars ''MAELSTROM_AUTHKEY_PATH'', cli_authkey_path cli, yaml_authkey_path y] = Some (lay_authkey_path lc)"
    by (auto simp: layered_merge_normal environment_new_fields split: sum.splits)
  with cli path load key fields show ?thesis
    by auto
qed

theorem server_new_provenance_witness:
  "server_new demo_services scenario_vars scenario_args scenario_fs = (Inr scenario_result, scenario_fs1) \<and>
   (\<exists>cli p y. cli_from_args demo_services scenario_args = Inr cli \<and>
       first_some [scenario_vars ''MAELSTROM_CONF_PATH'', cli_configuration_path cli] = Some p \<and>
       yaml_layer_load demo_services p scenario_fs = (Inr y, scenario_fs1) \<and>
       first_some [Option.bind (scenario_vars ''MAELSTROM_SERVER_ADDRESS'') (url_parse demo_services),
                   cli_server_addr cli, yaml_server_addr y] = Some (srv_server_addr scenario_result) \<and>
       first_some [Option.bind (scenario_vars ''MAELSTROM_DATABASE_ADDRESS'') (url_parse demo_services),
                   cli_database_addr cli, yaml_database_addr y] = Some (srv_database_addr scenario_result) \<and>
       (\<exists>kp. first_some [scenario_vars ''MAELSTROM_AUTHKEY_PATH'', cli_authkey_path cli, yaml_authkey_path y] = Some kp \<and>
             load_authkey demo_services kp scenario_fs1 = Inr (srv_authkey scenario_result)))"
  using scenario_server_new server_new_provenance [OF scenario_server_new] by blast

end
